theory Spec2Isabelle
  imports Complex_Main
begin

section \<open>JavaScript values\<close>

text \<open>
  The values \<^verbatim>\<open>JSON.parse\<close> produces and the request bodies carry. An object is the
  list of its own properties; a number is its (finite) value. \<^verbatim>\<open>undefined\<close> is not a
  JSON value: an expression that may be \<^verbatim>\<open>undefined\<close> has type \<open>json option\<close>,
  with \<open>None\<close> for \<^verbatim>\<open>undefined\<close>.
\<close>

datatype json =
    JNull
  | JBool bool
  | JNum rat
  | JStr string
  | JArr "json list"
  | JObj "(string \<times> json) list"

text \<open>JavaScript truthiness: \<^verbatim>\<open>null\<close>, \<^verbatim>\<open>false\<close>, \<^verbatim>\<open>0\<close> and \<^verbatim>\<open>""\<close> are falsy.\<close>

fun truthy :: "json \<Rightarrow> bool" where
  "truthy JNull = False"
| "truthy (JBool b) = b"
| "truthy (JNum n) = (n \<noteq> 0)"
| "truthy (JStr s) = (s \<noteq> [])"
| "truthy (JArr xs) = True"
| "truthy (JObj kvs) = True"

definition truthy_opt :: "json option \<Rightarrow> bool" where
  "truthy_opt v = (case v of None \<Rightarrow> False | Some j \<Rightarrow> truthy j)"

text \<open>
  \<^verbatim>\<open>a || b\<close> on strings, where \<open>a\<close> may be \<^verbatim>\<open>undefined\<close>: the empty string and
  \<^verbatim>\<open>undefined\<close> are falsy.
\<close>

definition or_else :: "string option \<Rightarrow> string \<Rightarrow> string" where
  "or_else a b = (case a of None \<Rightarrow> b | Some s \<Rightarrow> if s = [] then b else s)"

text \<open>
  An object literal \<^verbatim>\<open>{k1, k2, ...}\<close> as a request body: \<^verbatim>\<open>JSON.stringify\<close> leaves
  out a property whose value is \<^verbatim>\<open>undefined\<close>.
\<close>

fun object_literal :: "(string \<times> json option) list \<Rightarrow> (string \<times> json) list" where
  "object_literal [] = []"
| "object_literal ((k, None) # kvs) = object_literal kvs"
| "object_literal ((k, Some v) # kvs) = (k, v) # object_literal kvs"

section \<open>Secure storage (expo-secure-store)\<close>

type_synonym secure_store = "string \<rightharpoonup> string"

definition getItemAsync :: "secure_store \<Rightarrow> string \<Rightarrow> string option" where
  "getItemAsync st k = st k"

definition setItemAsync :: "secure_store \<Rightarrow> string \<Rightarrow> string \<Rightarrow> secure_store" where
  "setItemAsync st k v = st(k \<mapsto> v)"

definition deleteItemAsync :: "secure_store \<Rightarrow> string \<Rightarrow> secure_store" where
  "deleteItemAsync st k = st(k := None)"

section \<open>services/apiService.ts\<close>

definition API_BASE_URL :: string where
  "API_BASE_URL = ''https://knockster-org-cpp9.vercel.app''"

datatype http_verb = GET | POST | PATCH

record http_request =
  verb :: http_verb
  url :: string
  authorization :: "string option"
  payload :: "json option"

text \<open>\<^verbatim>\<open>ApiResponse<T>\<close>: what every method of the service resolves to.\<close>

record 'a api_response =
  success :: bool
  data :: "'a option"
  message :: "string option"
  error :: "string option"

text \<open>
  What a rejected request carries. For an \<^verbatim>\<open>AxiosError\<close>: \<open>status\<close> is
  \<^verbatim>\<open>error.response?.status\<close>, \<open>data_message\<close> is \<^verbatim>\<open>error.response?.data?.message\<close>
  and \<open>axios_message\<close> is \<^verbatim>\<open>error.message\<close>. Any other thrown value carries its
  \<^verbatim>\<open>message\<close> only.
\<close>

record axios_error =
  status :: "nat option"
  data_message :: "string option"
  axios_message :: "string option"

datatype thrown = AxiosError axios_error | OtherError "string option"

text \<open>
  The transport (axios over the network, with the server behind it) answers a request
  with a response body or rejects it.
\<close>

type_synonym 'a transport = "http_request \<Rightarrow> thrown + 'a api_response"

text \<open>The request interceptor: attaches the bearer token when one is stored.\<close>

definition request_interceptor :: "secure_store \<Rightarrow> http_request \<Rightarrow> http_request" where
  "request_interceptor st config =
     (case getItemAsync st ''auth_token'' of
        None \<Rightarrow> config
      | Some token \<Rightarrow>
          if token \<noteq> [] then config\<lparr>authorization := Some (''Bearer '' @ token)\<rparr>
          else config)"

text \<open>
  The response interceptor's error handler: on status 401 it deletes the stored token,
  and then rejects with the same error.
\<close>

definition response_interceptor_error :: "secure_store \<Rightarrow> thrown \<Rightarrow> secure_store \<times> thrown" where
  "response_interceptor_error st e =
     (case e of
        AxiosError ae \<Rightarrow>
          if status ae = Some 401 then (deleteItemAsync st ''auth_token'', e) else (st, e)
      | OtherError m \<Rightarrow> (st, e))"

text \<open>\<^verbatim>\<open>this.api.get/post/patch\<close>: the two interceptors around the transport.\<close>

definition api_send ::
  "'a transport \<Rightarrow> secure_store \<Rightarrow> http_request \<Rightarrow> secure_store \<times> (thrown + 'a api_response)" where
  "api_send tr st config =
     (case tr (request_interceptor st config) of
        Inr response \<Rightarrow> (st, Inr response)
      | Inl e \<Rightarrow> (case response_interceptor_error st e of (st', e') \<Rightarrow> (st', Inl e')))"

definition handleResponse :: "'a api_response \<Rightarrow> 'a api_response" where
  "handleResponse response = response"

definition handleError :: "thrown \<Rightarrow> 'a api_response" where
  "handleError e =
     (case e of
        AxiosError ae \<Rightarrow>
          \<lparr>success = False, data = None, message = None,
           error = Some (or_else (data_message ae) (or_else (axios_message ae) ''An error occurred''))\<rparr>
      | OtherError m \<Rightarrow>
          \<lparr>success = False, data = None, message = None,
           error = Some (or_else m ''An unexpected error occurred'')\<rparr>)"

text \<open>
  The body every HTTP method of the service shares:
  \<^verbatim>\<open>try { return this.handleResponse(await this.api.post(...)) } catch (error) { return this.handleError(error) }\<close>
\<close>

definition try_request ::
  "'a transport \<Rightarrow> secure_store \<Rightarrow> http_request \<Rightarrow> secure_store \<times> 'a api_response" where
  "try_request tr st config =
     (case api_send tr st config of
        (st', Inr response) \<Rightarrow> (st', handleResponse response)
      | (st', Inl e) \<Rightarrow> (st', handleError e))"

definition request_config :: "http_verb \<Rightarrow> string \<Rightarrow> json option \<Rightarrow> http_request" where
  "request_config v path body =
     \<lparr>verb = v, url = API_BASE_URL @ path, authorization = None, payload = body\<rparr>"

definition login :: "'a transport \<Rightarrow> secure_store \<Rightarrow> json \<Rightarrow> secure_store \<times> 'a api_response" where
  "login tr st credentials =
     try_request tr st (request_config POST ''/api/mobile-api/security/login'' (Some credentials))"

definition logout :: "secure_store \<Rightarrow> secure_store" where
  "logout st = deleteItemAsync st ''auth_token''"

definition getDashboard :: "'a transport \<Rightarrow> secure_store \<Rightarrow> secure_store \<times> 'a api_response" where
  "getDashboard tr st =
     try_request tr st (request_config GET ''/api/mobile-api/security/dashboard'' None)"

definition getGuardQR :: "'a transport \<Rightarrow> secure_store \<Rightarrow> secure_store \<times> 'a api_response" where
  "getGuardQR tr st =
     try_request tr st (request_config GET ''/api/mobile-api/security/qr'' None)"

definition scanGuest ::
  "'a transport \<Rightarrow> secure_store \<Rightarrow> json option \<Rightarrow> json option \<Rightarrow> secure_store \<times> 'a api_response" where
  "scanGuest tr st invitationId qrCode =
     try_request tr st (request_config POST ''/api/mobile-api/security/scan-guest''
       (Some (JObj (object_literal [(''invitationId'', invitationId), (''qrCode'', qrCode)]))))"

definition verifyOtp ::
  "'a transport \<Rightarrow> secure_store \<Rightarrow> json option \<Rightarrow> json option \<Rightarrow> json option \<Rightarrow>
   secure_store \<times> 'a api_response" where
  "verifyOtp tr st invitationId qrCode otpCode =
     try_request tr st (request_config POST ''/api/mobile-api/security/verify-otp''
       (Some (JObj (object_literal
          [(''invitationId'', invitationId), (''qrCode'', qrCode), (''otpCode'', otpCode)]))))"

definition getProfile :: "'a transport \<Rightarrow> secure_store \<Rightarrow> secure_store \<times> 'a api_response" where
  "getProfile tr st =
     try_request tr st (request_config GET ''/api/mobile-api/security/profile'' None)"

definition updateProfile :: "'a transport \<Rightarrow> secure_store \<Rightarrow> json \<Rightarrow> secure_store \<times> 'a api_response" where
  "updateProfile tr st d =
     try_request tr st (request_config PATCH ''/api/mobile-api/security/profile'' (Some d))"

text \<open>
  The public methods of the class as one type, so that a statement can range over all of
  them. \<open>invoke\<close> calls the method; \<^verbatim>\<open>logout\<close> returns nothing (\<open>None\<close>).
\<close>

datatype operation =
    Op_login json
  | Op_logout
  | Op_getDashboard
  | Op_getGuardQR
  | Op_scanGuest "json option" "json option"
  | Op_verifyOtp "json option" "json option" "json option"
  | Op_getProfile
  | Op_updateProfile json

fun invoke ::
  "'a transport \<Rightarrow> secure_store \<Rightarrow> operation \<Rightarrow> secure_store \<times> 'a api_response option" where
  "invoke tr st (Op_login c) = map_prod id Some (login tr st c)"
| "invoke tr st Op_logout = (logout st, None)"
| "invoke tr st Op_getDashboard = map_prod id Some (getDashboard tr st)"
| "invoke tr st Op_getGuardQR = map_prod id Some (getGuardQR tr st)"
| "invoke tr st (Op_scanGuest i q) = map_prod id Some (scanGuest tr st i q)"
| "invoke tr st (Op_verifyOtp i q c) = map_prod id Some (verifyOtp tr st i q c)"
| "invoke tr st Op_getProfile = map_prod id Some (getProfile tr st)"
| "invoke tr st (Op_updateProfile d) = map_prod id Some (updateProfile tr st d)"

text \<open>
  Whether the transport answers the request of an operation with status 401: the request
  is the one the method builds, as the request interceptor sends it. \<^verbatim>\<open>logout\<close> sends
  no request.
\<close>

fun sent_request :: "secure_store \<Rightarrow> operation \<Rightarrow> http_request option" where
  "sent_request st (Op_login c) =
     Some (request_interceptor st (request_config POST ''/api/mobile-api/security/login'' (Some c)))"
| "sent_request st Op_logout = None"
| "sent_request st Op_getDashboard =
     Some (request_interceptor st (request_config GET ''/api/mobile-api/security/dashboard'' None))"
| "sent_request st Op_getGuardQR =
     Some (request_interceptor st (request_config GET ''/api/mobile-api/security/qr'' None))"
| "sent_request st (Op_scanGuest i q) =
     Some (request_interceptor st (request_config POST ''/api/mobile-api/security/scan-guest''
       (Some (JObj (object_literal [(''invitationId'', i), (''qrCode'', q)])))))"
| "sent_request st (Op_verifyOtp i q c) =
     Some (request_interceptor st (request_config POST ''/api/mobile-api/security/verify-otp''
       (Some (JObj (object_literal [(''invitationId'', i), (''qrCode'', q), (''otpCode'', c)])))))"
| "sent_request st Op_getProfile =
     Some (request_interceptor st (request_config GET ''/api/mobile-api/security/profile'' None))"
| "sent_request st (Op_updateProfile d) =
     Some (request_interceptor st (request_config PATCH ''/api/mobile-api/security/profile'' (Some d)))"

definition answers_401 :: "'a transport \<Rightarrow> http_request option \<Rightarrow> axios_error \<Rightarrow> bool" where
  "answers_401 tr r ae =
     (case r of None \<Rightarrow> False
      | Some req \<Rightarrow> tr req = Inl (AxiosError ae) \<and> status ae = Some 401)"

section \<open>contexts/AuthContext.tsx\<close>

record 'g auth_state =
  guard :: "'g option"
  token :: "string option"
  isLoading :: bool

text \<open>
  \<^verbatim>\<open>logout\<close> of the context: the service's logout, then both keys are deleted and the
  in-memory session is cleared.
\<close>

definition AuthContext_logout :: "secure_store \<times> 'g auth_state \<Rightarrow> secure_store \<times> 'g auth_state" where
  "AuthContext_logout p =
     (case p of (st, a) \<Rightarrow>
        let a1 = a\<lparr>isLoading := True\<rparr>;
            st1 = logout st;
            st2 = deleteItemAsync st1 ''auth_token'';
            st3 = deleteItemAsync st2 ''guard_data'';
            a2 = a1\<lparr>token := None\<rparr>;
            a3 = a2\<lparr>guard := None\<rparr>
        in (st3, a3\<lparr>isLoading := False\<rparr>))"

section \<open>Calls from the screens to the service\<close>

text \<open>
  What an awaited call to a method of \<^verbatim>\<open>apiService\<close> yields in a screen: the response the
  method resolves to (\<open>Inr\<close>), or a thrown error with its \<^verbatim>\<open>message\<close> (\<open>Inl\<close>).
\<close>

type_synonym 'a outcome = "string option + 'a api_response"

text \<open>The methods the class \<^verbatim>\<open>ApiService\<close> declares (its two helpers among them).\<close>

definition ApiService_methods :: "string list" where
  "ApiService_methods =
     [''handleResponse'', ''handleError'', ''login'', ''logout'', ''getDashboard'',
      ''getGuardQR'', ''scanGuest'', ''verifyOtp'', ''getProfile'', ''updateProfile'']"

text \<open>
  \<^verbatim>\<open>await apiService.name(...)\<close>: a name that is no method of the class reads as
  \<^verbatim>\<open>undefined\<close>, and calling it throws a \<^verbatim>\<open>TypeError\<close> (with the engine's message)
  before any request is made; otherwise the call yields the method's result.
\<close>

definition apiService_call :: "string \<Rightarrow> string option \<Rightarrow> 'a outcome \<Rightarrow> 'a outcome" where
  "apiService_call name engine_message result =
     (if name \<in> set ApiService_methods then result else Inl engine_message)"

section \<open>app/(tabs)/my-qr.tsx\<close>

record PendingL3Scan =
  l3_invitationId :: string
  l3_guestName :: string
  l3_guestPhone :: string
  l3_employeeName :: string
  l3_scannedAt :: string
  l3_securityLevel :: int

record PendingL4Otp =
  l4_invitationId :: string
  l4_guestName :: string
  l4_guestPhone :: string
  l4_employeeName :: string
  l4_expiresAt :: string
  l4_generatedAt :: string
  l4_securityLevel :: int

text \<open>The \<^verbatim>\<open>data\<close> of a pending-actions response, as the screen destructures it.\<close>

record pending_actions =
  hasL3Scans :: bool
  hasL4Otps :: bool
  pendingL3Scans :: "PendingL3Scan list"
  pendingL4Otps :: "PendingL4Otp list"

text \<open>The \<^verbatim>\<open>useState\<close> cells of \<^verbatim>\<open>MyQRScreen\<close>.\<close>

record myqr_state =
  qrData :: "string option"
  qr_isLoading :: bool
  showL3Modal :: bool
  showL4Modal :: bool
  l3ScanData :: "PendingL3Scan option"
  l4OtpData :: "PendingL4Otp option"
  otpInput :: string
  isVerifyingOtp :: bool

definition myqr_initial :: myqr_state where
  "myqr_initial =
     \<lparr>qrData = None, qr_isLoading = True, showL3Modal = False, showL4Modal = False,
      l3ScanData = None, l4OtpData = None, otpInput = [], isVerifyingOtp = False\<rparr>"

text \<open>
  A function of the component body is created anew at every render and reads the state
  cells as constants of that render; a setter writes the current state. So every handler
  takes two states: \<open>r\<close>, the state of the render that created it (what its body reads),
  and \<open>s\<close>, the current state (what its setters update).

  \<^verbatim>\<open>checkPendingActions\<close>: the awaited call, then the two guarded surfacings; a thrown
  error is logged and nothing else happens.
\<close>

definition checkPendingActions ::
  "myqr_state \<Rightarrow> pending_actions outcome \<Rightarrow> myqr_state \<Rightarrow> myqr_state" where
  "checkPendingActions r result s =
     (case result of
        Inl e \<Rightarrow> s
      | Inr response \<Rightarrow>
          (case data response of
             None \<Rightarrow> s
           | Some d \<Rightarrow>
               if success response then
                 let s1 = (case pendingL3Scans d of
                             [] \<Rightarrow> s
                           | x # xs \<Rightarrow>
                               if hasL3Scans d \<and> \<not> showL3Modal r
                               then s\<lparr>l3ScanData := Some x, showL3Modal := True\<rparr>
                               else s);
                     s2 = (case pendingL4Otps d of
                             [] \<Rightarrow> s1
                           | y # ys \<Rightarrow>
                               if hasL4Otps d \<and> \<not> showL4Modal r
                               then s1\<lparr>l4OtpData := Some y, showL4Modal := True\<rparr>
                               else s1)
                 in s2
               else s))"

text \<open>
  \<^verbatim>\<open>startPolling\<close> runs once, in the effect of the first render
  (\<^verbatim>\<open>useEffect(() => {...}, [])\<close>): its first check and every later interval callback call
  the \<^verbatim>\<open>checkPendingActions\<close> of that first render, whose state is the initial one.
  A tick is that function applied to the current state when the awaited call settles.
\<close>

definition poll_tick :: "pending_actions outcome \<Rightarrow> myqr_state \<Rightarrow> myqr_state" where
  "poll_tick result s = checkPendingActions myqr_initial result s"

definition handleL3Acknowledge :: "myqr_state \<Rightarrow> myqr_state" where
  "handleL3Acknowledge s = s\<lparr>showL3Modal := False, l3ScanData := None\<rparr>"

definition handleCancelL4 :: "myqr_state \<Rightarrow> myqr_state" where
  "handleCancelL4 s = s\<lparr>showL4Modal := False, l4OtpData := None, otpInput := []\<rparr>"

datatype myqr_alert = AccessGrantedAlert string | ErrorAlert string

text \<open>
  The screen with what is outstanding around it: the calls made to the service so far,
  the verify calls not yet settled (each with the \<^verbatim>\<open>l4OtpData\<close> its handler read), the
  QR loads not yet settled, and the alerts shown and not yet dismissed.
\<close>

record myqr_world =
  mq_ui :: myqr_state
  mq_calls :: "operation list"
  mq_verifying :: "PendingL4Otp list"
  mq_loading :: nat
  mq_alerts :: "myqr_alert list"

text \<open>
  \<^verbatim>\<open>handleVerifyOtp\<close> up to its \<^verbatim>\<open>await\<close>. The screen passes one object to
  \<^verbatim>\<open>apiService.verifyOtp\<close>, which takes three positional arguments: the object arrives
  as \<^verbatim>\<open>invitationId\<close>, and \<^verbatim>\<open>qrCode\<close> and \<^verbatim>\<open>otpCode\<close> are \<^verbatim>\<open>undefined\<close>.
\<close>

definition myqr_handleVerifyOtp :: "myqr_world \<Rightarrow> myqr_world" where
  "myqr_handleVerifyOtp w =
     (let r = mq_ui w in
      case l4OtpData r of
        None \<Rightarrow> w
      | Some d \<Rightarrow>
          if otpInput r = [] then w
          else w\<lparr>mq_ui := (mq_ui w)\<lparr>isVerifyingOtp := True\<rparr>,
                 mq_calls := mq_calls w @
                   [Op_verifyOtp
                      (Some (JObj [(''invitationId'', JStr (l4_invitationId d)),
                                   (''otpCode'', JStr (otpInput r))]))
                      None None],
                 mq_verifying := mq_verifying w @ [d]\<rparr>)"

text \<open>\<^verbatim>\<open>handleVerifyOtp\<close> from the \<^verbatim>\<open>await\<close> on, for the oldest outstanding call.\<close>

definition myqr_verifyOtp_settles :: "unit outcome \<Rightarrow> myqr_world \<Rightarrow> myqr_world" where
  "myqr_verifyOtp_settles result w =
     (case mq_verifying w of
        [] \<Rightarrow> w
      | d # rest \<Rightarrow>
          let a = (case result of
                     Inl m \<Rightarrow> ErrorAlert (or_else m ''Failed to verify OTP'')
                   | Inr response \<Rightarrow>
                       if success response
                       then AccessGrantedAlert (l4_guestName d @ '' has been granted access (Level 4)'')
                       else ErrorAlert (or_else (error response) ''Invalid OTP code''))
          in w\<lparr>mq_ui := (mq_ui w)\<lparr>isVerifyingOtp := False\<rparr>,
                mq_verifying := rest,
                mq_alerts := mq_alerts w @ [a]\<rparr>)"

text \<open>The button of the oldest alert: \<^verbatim>\<open>OK\<close> of the success alert closes the modal.\<close>

definition myqr_alert_ok :: "myqr_world \<Rightarrow> myqr_world" where
  "myqr_alert_ok w =
     (case mq_alerts w of
        [] \<Rightarrow> w
      | AccessGrantedAlert m # rest \<Rightarrow>
          w\<lparr>mq_ui := (mq_ui w)\<lparr>showL4Modal := False, l4OtpData := None, otpInput := []\<rparr>,
            mq_alerts := rest\<rparr>
      | ErrorAlert m # rest \<Rightarrow> w\<lparr>mq_alerts := rest\<rparr>)"

text \<open>\<^verbatim>\<open>loadQRCode\<close>, up to its \<^verbatim>\<open>await\<close> and from there on.\<close>

definition loadQRCode :: "myqr_world \<Rightarrow> myqr_world" where
  "loadQRCode w =
     w\<lparr>mq_ui := (mq_ui w)\<lparr>qr_isLoading := True\<rparr>,
       mq_calls := mq_calls w @ [Op_getGuardQR],
       mq_loading := Suc (mq_loading w)\<rparr>"

definition loadQRCode_settles :: "string outcome \<Rightarrow> myqr_world \<Rightarrow> myqr_world" where
  "loadQRCode_settles result w =
     (let u = mq_ui w;
          u1 = (case result of
                  Inl m \<Rightarrow> u
                | Inr response \<Rightarrow>
                    (case data response of
                       None \<Rightarrow> u
                     | Some q \<Rightarrow> if success response then u\<lparr>qrData := Some q\<rparr> else u));
          shown = (case result of
                     Inl m \<Rightarrow> [ErrorAlert ''Failed to load QR code'']
                   | Inr response \<Rightarrow> [])
      in w\<lparr>mq_ui := u1\<lparr>qr_isLoading := False\<rparr>,
            mq_loading := mq_loading w - 1,
            mq_alerts := mq_alerts w @ shown\<rparr>)"

text \<open>The screen after its mount effect has run: the QR load is outstanding.\<close>

definition myqr_mounted :: myqr_world where
  "myqr_mounted =
     loadQRCode \<lparr>mq_ui = myqr_initial, mq_calls = [], mq_verifying = [], mq_loading = 0,
                 mq_alerts = []\<rparr>"

text \<open>
  What can happen to the mounted screen: a poll tick settles, the guard presses a button
  or edits the code field, or an outstanding call settles. A button or field calls the
  handler of the latest render, which reads the current state.
\<close>

datatype myqr_event =
    PollTick "pending_actions outcome"
  | PressAcknowledge
  | PressCancelL4
  | ChangeOtpInput string
  | PressVerifyOtp
  | VerifyOtpSettles "unit outcome"
  | PressAlertOk
  | PressRefreshQR
  | GetGuardQRSettles "string outcome"

text \<open>
  Whether the event can happen in a state, as the JSX has it: while \<^verbatim>\<open>isLoading\<close> the
  screen renders the loading view only; a modal's controls exist while it is visible, and
  a visible modal covers the screen's own buttons; the code field is rendered with the OTP
  data and takes at most 6 characters; the verify button is disabled while verifying or
  while the code's length is not 6.
\<close>

fun myqr_enabled :: "myqr_world \<Rightarrow> myqr_event \<Rightarrow> bool" where
  "myqr_enabled w (PollTick result) = True"
| "myqr_enabled w PressAcknowledge = (\<not> qr_isLoading (mq_ui w) \<and> showL3Modal (mq_ui w))"
| "myqr_enabled w PressCancelL4 = (\<not> qr_isLoading (mq_ui w) \<and> showL4Modal (mq_ui w))"
| "myqr_enabled w (ChangeOtpInput t) =
     (\<not> qr_isLoading (mq_ui w) \<and> showL4Modal (mq_ui w) \<and> l4OtpData (mq_ui w) \<noteq> None
      \<and> length t \<le> 6)"
| "myqr_enabled w PressVerifyOtp =
     (\<not> qr_isLoading (mq_ui w) \<and> showL4Modal (mq_ui w)
      \<and> \<not> (isVerifyingOtp (mq_ui w) \<or> length (otpInput (mq_ui w)) \<noteq> 6))"
| "myqr_enabled w (VerifyOtpSettles result) = (mq_verifying w \<noteq> [])"
| "myqr_enabled w PressAlertOk = (mq_alerts w \<noteq> [])"
| "myqr_enabled w PressRefreshQR =
     (\<not> qr_isLoading (mq_ui w) \<and> \<not> showL3Modal (mq_ui w) \<and> \<not> showL4Modal (mq_ui w))"
| "myqr_enabled w (GetGuardQRSettles result) = (0 < mq_loading w)"

fun myqr_handle :: "myqr_event \<Rightarrow> myqr_world \<Rightarrow> myqr_world" where
  "myqr_handle (PollTick result) w = w\<lparr>mq_ui := poll_tick result (mq_ui w)\<rparr>"
| "myqr_handle PressAcknowledge w = w\<lparr>mq_ui := handleL3Acknowledge (mq_ui w)\<rparr>"
| "myqr_handle PressCancelL4 w = w\<lparr>mq_ui := handleCancelL4 (mq_ui w)\<rparr>"
| "myqr_handle (ChangeOtpInput t) w = w\<lparr>mq_ui := (mq_ui w)\<lparr>otpInput := t\<rparr>\<rparr>"
| "myqr_handle PressVerifyOtp w = myqr_handleVerifyOtp w"
| "myqr_handle (VerifyOtpSettles result) w = myqr_verifyOtp_settles result w"
| "myqr_handle PressAlertOk w = myqr_alert_ok w"
| "myqr_handle PressRefreshQR w = loadQRCode w"
| "myqr_handle (GetGuardQRSettles result) w = loadQRCode_settles result w"

definition myqr_step :: "myqr_world \<Rightarrow> myqr_event \<Rightarrow> myqr_world" where
  "myqr_step w e = (if myqr_enabled w e then myqr_handle e w else w)"

definition myqr_run :: "myqr_event list \<Rightarrow> myqr_world \<Rightarrow> myqr_world" where
  "myqr_run es w = foldl myqr_step w es"

text \<open>
  The events of the screen running on the service as shipped: a tick's awaited call is
  \<^verbatim>\<open>apiService.checkPendingActions()\<close>, whatever the server would have answered.
\<close>

fun on_shipped_service :: "string option \<Rightarrow> myqr_event \<Rightarrow> myqr_event" where
  "on_shipped_service m (PollTick result) =
     PollTick (apiService_call ''checkPendingActions'' m result)"
| "on_shipped_service m e = e"

section \<open>app/(tabs)/scanner.tsx\<close>

text \<open>
  What the screen takes from the JavaScript engine: \<^verbatim>\<open>JSON.parse\<close> (\<open>None\<close> when it
  throws) and the message of the \<^verbatim>\<open>TypeError\<close> for reading a property of \<^verbatim>\<open>null\<close>.
\<close>

record js_env =
  JSON_parse :: "string \<Rightarrow> json option"
  TypeError_message :: "string option"

text \<open>
  \<^verbatim>\<open>v.name\<close> for a name no prototype defines (\<^verbatim>\<open>invitationId\<close>, \<^verbatim>\<open>qrCode\<close>): an own
  property of an object, \<^verbatim>\<open>undefined\<close> on every other value. Reading a property of
  \<^verbatim>\<open>null\<close> throws; the callers below test for \<^verbatim>\<open>null\<close> first.
\<close>

definition read_prop :: "json \<Rightarrow> string \<Rightarrow> json option" where
  "read_prop v name = (case v of JObj kvs \<Rightarrow> map_of kvs name | _ \<Rightarrow> None)"

text \<open>
  \<^verbatim>\<open>!s.trim()\<close>: the text is empty once its white space is trimmed. A \<open>char\<close> is a code
  unit below 256, where the white space of \<^verbatim>\<open>trim\<close> is TAB, LF, VT, FF, CR, space and
  the no-break space.
\<close>

definition js_whitespace :: "char \<Rightarrow> bool" where
  "js_whitespace c =
     (c = CHR 0x09 \<or> c = CHR 0x0A \<or> c = CHR 0x0B \<or> c = CHR 0x0C \<or> c = CHR 0x0D
      \<or> c = CHR 0x20 \<or> c = CHR 0xA0)"

definition blank :: "string \<Rightarrow> bool" where
  "blank t = list_all js_whitespace t"

text \<open>
  The \<^verbatim>\<open>invitation\<close> of a scan or verify response, and the response's \<^verbatim>\<open>data\<close>
  (\<^verbatim>\<open>ScanGuestResponse\<close>, \<^verbatim>\<open>VerifyOTPResponse\<close>). The organization and the
  pre-approval flag of a scan response are never read and are left out.
\<close>

record invitation =
  inv_id :: string
  inv_guestName :: "string option"
  inv_guestPhone :: string
  inv_employeeName :: string
  inv_employeePhone :: string
  inv_securityLevel :: int
  inv_validFrom :: string
  inv_validTo :: string

record scan_data =
  sd_status :: string
  sd_message :: string
  sd_invitation :: invitation

record ScanResult =
  sr_success :: bool
  sr_message :: string
  sr_guestName :: "string option"
  sr_guestPhone :: "string option"
  sr_securityLevel :: "int option"
  sr_requiresOtp :: "bool option"
  sr_invitationId :: "json option"
  sr_qrCode :: "json option"

text \<open>
  The \<^verbatim>\<open>useState\<close> cells of \<^verbatim>\<open>ScannerScreen\<close>. The model is of the screen with the
  camera permission granted: without it the screen renders the permission request only.
  Haptic feedback and the scan line animation change no state and are left out.
\<close>

record scanner_state =
  scanned :: bool
  flashEnabled :: bool
  scanResult :: "ScanResult option"
  showManualEntry :: bool
  showOtpModal :: bool
  manualQrCode :: string
  otpCode :: string
  isProcessing :: bool
  pendingOtpData :: "json option"

definition scanner_initial :: scanner_state where
  "scanner_initial =
     \<lparr>scanned = False, flashEnabled = False, scanResult = None, showManualEntry = False,
      showOtpModal = False, manualQrCode = [], otpCode = [], isProcessing = False,
      pendingOtpData = None\<rparr>"

text \<open>
  The screen with what is outstanding around it: the state of the render whose
  \<^verbatim>\<open>handleBarCodeScanned\<close> the camera view holds (the view keeps the handler it was
  given until a re-render reaches it); the calls made to the service so far; the
  \<^verbatim>\<open>processScan\<close> runs waiting for \<^verbatim>\<open>scanGuest\<close>, each with its \<^verbatim>\<open>parsedData\<close>
  and whether \<^verbatim>\<open>handleManualEntry\<close> awaits it; the \<^verbatim>\<open>handleVerifyOtp\<close> runs waiting
  for \<^verbatim>\<open>verifyOtp\<close>, each with the \<^verbatim>\<open>scanResult\<close> of the render that created it; and
  the messages of the alerts shown and not yet dismissed.
\<close>

record scanner_world =
  sc_ui :: scanner_state
  sc_camera :: scanner_state
  sc_calls :: "operation list"
  sc_scanning :: "(json \<times> bool) list"
  sc_verifying :: "ScanResult option list"
  sc_alerts :: "string list"

definition scanner_start :: scanner_world where
  "scanner_start =
     \<lparr>sc_ui = scanner_initial, sc_camera = scanner_initial, sc_calls = [], sc_scanning = [],
      sc_verifying = [], sc_alerts = []\<rparr>"

text \<open>
  The \<^verbatim>\<open>catch\<close> of \<^verbatim>\<open>processScan\<close>:
  \<^verbatim>\<open>setScanResult({ success: false, message: error.message || 'Scan failed' })\<close>.
\<close>

definition scan_failed :: "string option \<Rightarrow> ScanResult" where
  "scan_failed m =
     \<lparr>sr_success = False, sr_message = or_else m ''Scan failed'', sr_guestName = None,
      sr_guestPhone = None, sr_securityLevel = None, sr_requiresOtp = None,
      sr_invitationId = None, sr_qrCode = None\<rparr>"

text \<open>
  What follows \<^verbatim>\<open>processScan\<close> once it has set its result: \<^verbatim>\<open>finally\<close> clears
  \<^verbatim>\<open>isProcessing\<close>, and \<^verbatim>\<open>handleManualEntry\<close>, when it is the caller, clears its text.
\<close>

definition scan_finished :: "bool \<Rightarrow> scanner_state \<Rightarrow> scanner_state" where
  "scan_finished manual u =
     (let u1 = u\<lparr>isProcessing := False\<rparr>
      in if manual then u1\<lparr>manualQrCode := []\<rparr> else u1)"

text \<open>
  \<^verbatim>\<open>processScan\<close> up to its \<^verbatim>\<open>await\<close>: the text is parsed and both fields are tested
  before \<^verbatim>\<open>apiService.scanGuest\<close> is called; a throw goes to the \<^verbatim>\<open>catch\<close> and the
  run is over.
\<close>

definition processScan :: "js_env \<Rightarrow> bool \<Rightarrow> string \<Rightarrow> scanner_world \<Rightarrow> scanner_world" where
  "processScan env manual qr_text w =
     (let u = (sc_ui w)\<lparr>isProcessing := True\<rparr>;
          thrown = (\<lambda>m. w\<lparr>sc_ui := scan_finished manual (u\<lparr>scanResult := Some (scan_failed m)\<rparr>)\<rparr>)
      in case JSON_parse env qr_text of
           None \<Rightarrow> thrown (Some ''Invalid QR code format'')
         | Some parsedData \<Rightarrow>
             if parsedData = JNull then thrown (TypeError_message env)
             else if truthy_opt (read_prop parsedData ''invitationId'')
                     \<and> truthy_opt (read_prop parsedData ''qrCode'')
             then w\<lparr>sc_ui := u,
                    sc_calls := sc_calls w @
                      [Op_scanGuest (read_prop parsedData ''invitationId'') (read_prop parsedData ''qrCode'')],
                    sc_scanning := sc_scanning w @ [(parsedData, manual)]\<rparr>
             else thrown (Some ''Missing required QR data''))"

text \<open>\<^verbatim>\<open>processScan\<close> from the \<^verbatim>\<open>await\<close> on: the state the response leads to.\<close>

definition scan_response ::
  "json \<Rightarrow> scan_data outcome \<Rightarrow> scanner_state \<Rightarrow> scanner_state" where
  "scan_response parsedData result u =
     (case result of
        Inl m \<Rightarrow> u\<lparr>scanResult := Some (scan_failed m)\<rparr>
      | Inr response \<Rightarrow>
          (case data response of
             None \<Rightarrow>
               u\<lparr>scanResult := Some (scan_failed (Some (or_else (error response) ''Scan failed'')))\<rparr>
           | Some d \<Rightarrow>
               if success response then
                 if sd_status d = ''pending_otp'' then
                   u\<lparr>pendingOtpData := Some parsedData,
                     scanResult := Some
                       \<lparr>sr_success = True, sr_message = ''OTP Required'',
                        sr_guestName = inv_guestName (sd_invitation d),
                        sr_guestPhone = Some (inv_guestPhone (sd_invitation d)),
                        sr_securityLevel = Some (inv_securityLevel (sd_invitation d)),
                        sr_requiresOtp = Some True,
                        sr_invitationId = read_prop parsedData ''invitationId'',
                        sr_qrCode = read_prop parsedData ''qrCode''\<rparr>,
                     showOtpModal := True\<rparr>
                 else if sd_status d = ''success'' then
                   u\<lparr>scanResult := Some
                       \<lparr>sr_success = True,
                        sr_message = or_else (Some (sd_message d)) ''Access Granted'',
                        sr_guestName = inv_guestName (sd_invitation d),
                        sr_guestPhone = Some (inv_guestPhone (sd_invitation d)),
                        sr_securityLevel = Some (inv_securityLevel (sd_invitation d)),
                        sr_requiresOtp = Some False,
                        sr_invitationId = None, sr_qrCode = None\<rparr>\<rparr>
                 else
                   u\<lparr>scanResult := Some
                       (scan_failed (Some (or_else (Some (sd_message d)) ''Scan failed'')))\<rparr>
               else
                 u\<lparr>scanResult := Some
                     (scan_failed (Some (or_else (error response) ''Scan failed'')))\<rparr>))"

definition remove_nth :: "nat \<Rightarrow> 'a list \<Rightarrow> 'a list" where
  "remove_nth i xs = take i xs @ drop (Suc i) xs"

definition processScan_settles :: "nat \<Rightarrow> scan_data outcome \<Rightarrow> scanner_world \<Rightarrow> scanner_world" where
  "processScan_settles i result w =
     (if i < length (sc_scanning w) then
        (case sc_scanning w ! i of
           (parsedData, manual) \<Rightarrow>
             w\<lparr>sc_ui := scan_finished manual (scan_response parsedData result (sc_ui w)),
               sc_scanning := remove_nth i (sc_scanning w)\<rparr>)
      else w)"

text \<open>
  \<^verbatim>\<open>handleBarCodeScanned\<close>: its guard reads \<^verbatim>\<open>scanned\<close> and \<^verbatim>\<open>isProcessing\<close> of the
  render that created the handler the camera view holds; its setters write the current
  state.
\<close>

definition handleBarCodeScanned :: "js_env \<Rightarrow> string \<Rightarrow> scanner_world \<Rightarrow> scanner_world" where
  "handleBarCodeScanned env d w =
     (let r = sc_camera w in
      if scanned r \<or> isProcessing r then w
      else processScan env False d (w\<lparr>sc_ui := (sc_ui w)\<lparr>scanned := True\<rparr>\<rparr>))"

definition handleManualEntry :: "js_env \<Rightarrow> scanner_world \<Rightarrow> scanner_world" where
  "handleManualEntry env w =
     (let r = sc_ui w in
      if blank (manualQrCode r) then w\<lparr>sc_alerts := sc_alerts w @ [''Please enter QR code data'']\<rparr>
      else processScan env True (manualQrCode r)
             (w\<lparr>sc_ui := (sc_ui w)\<lparr>showManualEntry := False, scanned := True\<rparr>\<rparr>))"

text \<open>\<^verbatim>\<open>handleVerifyOtp\<close> up to its \<^verbatim>\<open>await\<close>.\<close>

definition handleVerifyOtp :: "scanner_world \<Rightarrow> scanner_world" where
  "handleVerifyOtp w =
     (let r = sc_ui w in
      case pendingOtpData r of
        None \<Rightarrow> w
      | Some p \<Rightarrow>
          if blank (otpCode r) \<or> \<not> truthy p then w
          else w\<lparr>sc_ui := (sc_ui w)\<lparr>isProcessing := True\<rparr>,
                 sc_calls := sc_calls w @
                   [Op_verifyOtp (read_prop p ''invitationId'') (read_prop p ''qrCode'')
                      (Some (JStr (otpCode r)))],
                 sc_verifying := sc_verifying w @ [scanResult r]\<rparr>)"

text \<open>
  \<^verbatim>\<open>handleVerifyOtp\<close> from the \<^verbatim>\<open>await\<close> on. \<open>shown\<close> is the \<^verbatim>\<open>scanResult\<close> the
  handler's render had: the guest fields of the new result are read from it.
\<close>

definition verify_granted :: "ScanResult option \<Rightarrow> scan_data \<Rightarrow> ScanResult" where
  "verify_granted shown d =
     \<lparr>sr_success = True,
      sr_message = or_else (Some (sd_message d)) ''Access Granted'',
      sr_guestName = (case shown of None \<Rightarrow> None | Some x \<Rightarrow> sr_guestName x),
      sr_guestPhone = (case shown of None \<Rightarrow> None | Some x \<Rightarrow> sr_guestPhone x),
      sr_securityLevel = (case shown of None \<Rightarrow> None | Some x \<Rightarrow> sr_securityLevel x),
      sr_requiresOtp = Some False,
      sr_invitationId = None, sr_qrCode = None\<rparr>"

text \<open>Whether the verify call came back as a success (\<^verbatim>\<open>response.success && response.data\<close>).\<close>

definition verify_accepted :: "scan_data outcome \<Rightarrow> bool" where
  "verify_accepted result =
     (case result of
        Inl m \<Rightarrow> False
      | Inr response \<Rightarrow> success response \<and> data response \<noteq> None)"

definition handleVerifyOtp_settles ::
  "nat \<Rightarrow> scan_data outcome \<Rightarrow> scanner_world \<Rightarrow> scanner_world" where
  "handleVerifyOtp_settles i result w =
     (if i < length (sc_verifying w) then
        (let shown = sc_verifying w ! i;
             u = sc_ui w;
             rest = remove_nth i (sc_verifying w)
         in case result of
              Inl m \<Rightarrow>
                w\<lparr>sc_ui := u\<lparr>isProcessing := False\<rparr>, sc_verifying := rest,
                  sc_alerts := sc_alerts w @ [or_else m ''OTP verification failed'']\<rparr>
            | Inr response \<Rightarrow>
                (case data response of
                   None \<Rightarrow>
                     w\<lparr>sc_ui := u\<lparr>isProcessing := False\<rparr>, sc_verifying := rest,
                       sc_alerts := sc_alerts w @
                         [or_else (Some (or_else (error response) ''Invalid OTP''))
                            ''OTP verification failed'']\<rparr>
                 | Some d \<Rightarrow>
                     if success response then
                       w\<lparr>sc_ui := u\<lparr>scanResult := Some (verify_granted shown d),
                                    showOtpModal := False, otpCode := [],
                                    pendingOtpData := None, isProcessing := False\<rparr>,
                         sc_verifying := rest\<rparr>
                     else
                       w\<lparr>sc_ui := u\<lparr>isProcessing := False\<rparr>, sc_verifying := rest,
                         sc_alerts := sc_alerts w @
                           [or_else (Some (or_else (error response) ''Invalid OTP''))
                              ''OTP verification failed'']\<rparr>))
      else w)"

definition resetScanner :: "scanner_state \<Rightarrow> scanner_state" where
  "resetScanner u = u\<lparr>scanned := False, scanResult := None, otpCode := [], pendingOtpData := None\<rparr>"

text \<open>
  What can happen to the screen: the camera reads a code, a re-render reaches the camera
  view, the guard presses a button or edits a field, or an outstanding call settles (the
  \<open>i\<close>-th of those waiting). A button or a field calls the handler of the latest render,
  which reads the current state; the camera view calls the handler it holds, so several
  reads can reach the handler of one render.
\<close>

datatype scanner_event =
    BarcodeScanned string
  | CameraRerender
  | ToggleFlash
  | OpenManualEntry
  | CloseManualEntry
  | ChangeManualQrCode string
  | PressManualSubmit
  | ChangeOtpCode string
  | PressOtpCancel
  | PressOtpVerify
  | PressScanAnother
  | ScanGuestSettles nat "scan_data outcome"
  | OtpVerifySettles nat "scan_data outcome"
  | DismissAlert

text \<open>
  Whether the event can happen in a state, as the JSX has it: the camera view (in the
  render it holds) and the
  flash and manual-entry buttons are rendered while \<^verbatim>\<open>!scanned\<close>, the result card with
  its \<^verbatim>\<open>Scan Another\<close> button while \<^verbatim>\<open>scanned\<close>; a visible modal covers the screen's
  own buttons (the camera keeps reading); the manual submit button is disabled while the
  text is blank; the OTP field takes at most 6 characters; the OTP cancel button is
  disabled while processing, the verify button while the code is blank or while
  processing.
\<close>

fun scanner_enabled :: "scanner_world \<Rightarrow> scanner_event \<Rightarrow> bool" where
  "scanner_enabled w (BarcodeScanned d) = (\<not> scanned (sc_camera w))"
| "scanner_enabled w CameraRerender = True"
| "scanner_enabled w ToggleFlash =
     (\<not> scanned (sc_ui w) \<and> \<not> showManualEntry (sc_ui w) \<and> \<not> showOtpModal (sc_ui w))"
| "scanner_enabled w OpenManualEntry =
     (\<not> scanned (sc_ui w) \<and> \<not> showManualEntry (sc_ui w) \<and> \<not> showOtpModal (sc_ui w))"
| "scanner_enabled w CloseManualEntry = showManualEntry (sc_ui w)"
| "scanner_enabled w (ChangeManualQrCode t) = showManualEntry (sc_ui w)"
| "scanner_enabled w PressManualSubmit =
     (showManualEntry (sc_ui w) \<and> \<not> blank (manualQrCode (sc_ui w)))"
| "scanner_enabled w (ChangeOtpCode t) = (showOtpModal (sc_ui w) \<and> length t \<le> 6)"
| "scanner_enabled w PressOtpCancel = (showOtpModal (sc_ui w) \<and> \<not> isProcessing (sc_ui w))"
| "scanner_enabled w PressOtpVerify =
     (showOtpModal (sc_ui w) \<and> \<not> (blank (otpCode (sc_ui w)) \<or> isProcessing (sc_ui w)))"
| "scanner_enabled w PressScanAnother =
     (scanned (sc_ui w) \<and> \<not> showManualEntry (sc_ui w) \<and> \<not> showOtpModal (sc_ui w))"
| "scanner_enabled w (ScanGuestSettles i result) = (i < length (sc_scanning w))"
| "scanner_enabled w (OtpVerifySettles i result) = (i < length (sc_verifying w))"
| "scanner_enabled w DismissAlert = (sc_alerts w \<noteq> [])"

fun scanner_handle :: "js_env \<Rightarrow> scanner_event \<Rightarrow> scanner_world \<Rightarrow> scanner_world" where
  "scanner_handle env (BarcodeScanned d) w = handleBarCodeScanned env d w"
| "scanner_handle env CameraRerender w = w\<lparr>sc_camera := sc_ui w\<rparr>"
| "scanner_handle env ToggleFlash w =
     w\<lparr>sc_ui := (sc_ui w)\<lparr>flashEnabled := \<not> flashEnabled (sc_ui w)\<rparr>\<rparr>"
| "scanner_handle env OpenManualEntry w = w\<lparr>sc_ui := (sc_ui w)\<lparr>showManualEntry := True\<rparr>\<rparr>"
| "scanner_handle env CloseManualEntry w = w\<lparr>sc_ui := (sc_ui w)\<lparr>showManualEntry := False\<rparr>\<rparr>"
| "scanner_handle env (ChangeManualQrCode t) w = w\<lparr>sc_ui := (sc_ui w)\<lparr>manualQrCode := t\<rparr>\<rparr>"
| "scanner_handle env PressManualSubmit w = handleManualEntry env w"
| "scanner_handle env (ChangeOtpCode t) w = w\<lparr>sc_ui := (sc_ui w)\<lparr>otpCode := t\<rparr>\<rparr>"
| "scanner_handle env PressOtpCancel w =
     w\<lparr>sc_ui := resetScanner ((sc_ui w)\<lparr>showOtpModal := False\<rparr>)\<rparr>"
| "scanner_handle env PressOtpVerify w = handleVerifyOtp w"
| "scanner_handle env PressScanAnother w = w\<lparr>sc_ui := resetScanner (sc_ui w)\<rparr>"
| "scanner_handle env (ScanGuestSettles i result) w = processScan_settles i result w"
| "scanner_handle env (OtpVerifySettles i result) w = handleVerifyOtp_settles i result w"
| "scanner_handle env DismissAlert w = w\<lparr>sc_alerts := tl (sc_alerts w)\<rparr>"

definition scanner_step :: "js_env \<Rightarrow> scanner_world \<Rightarrow> scanner_event \<Rightarrow> scanner_world" where
  "scanner_step env w e = (if scanner_enabled w e then scanner_handle env e w else w)"

definition scanner_run :: "js_env \<Rightarrow> scanner_event list \<Rightarrow> scanner_world \<Rightarrow> scanner_world" where
  "scanner_run env es w = foldl (scanner_step env) w es"

section \<open>Predicates and sample data for the statements\<close>

text \<open>Neither modal of the guard-QR screen is shown and neither pending item is held.\<close>

definition myqr_nothing_surfaced :: "myqr_world \<Rightarrow> bool" where
  "myqr_nothing_surfaced w =
     (\<not> showL3Modal (mq_ui w) \<and> \<not> showL4Modal (mq_ui w)
      \<and> l3ScanData (mq_ui w) = None \<and> l4OtpData (mq_ui w) = None)"

definition scan_A :: PendingL3Scan where
  "scan_A = \<lparr>l3_invitationId = ''inv-A'', l3_guestName = ''Alice'', l3_guestPhone = ''111'',
             l3_employeeName = ''Eve'', l3_scannedAt = ''10:00'', l3_securityLevel = 3\<rparr>"

definition scan_B :: PendingL3Scan where
  "scan_B = \<lparr>l3_invitationId = ''inv-B'', l3_guestName = ''Bob'', l3_guestPhone = ''222'',
             l3_employeeName = ''Eve'', l3_scannedAt = ''10:01'', l3_securityLevel = 3\<rparr>"

text \<open>A successful pending-actions response that reports the given tier-three scans.\<close>

definition l3_response :: "PendingL3Scan list \<Rightarrow> pending_actions outcome" where
  "l3_response xs =
     Inr \<lparr>success = True,
          data = Some \<lparr>hasL3Scans = True, hasL4Otps = False, pendingL3Scans = xs,
                       pendingL4Otps = []\<rparr>,
          message = None, error = None\<rparr>"

text \<open>
  The scan text is malformed: it does not parse, or the parsed value fails the test
  \<^verbatim>\<open>parsedData.invitationId && parsedData.qrCode\<close> (a field is missing or falsy, or
  the value is no object).
\<close>

definition malformed :: "js_env \<Rightarrow> string \<Rightarrow> bool" where
  "malformed env t =
     (case JSON_parse env t of
        None \<Rightarrow> True
      | Some j \<Rightarrow> \<not> (truthy_opt (read_prop j ''invitationId'') \<and> truthy_opt (read_prop j ''qrCode'')))"

text \<open>
  The scan call came back in the requires-OTP shape: a successful response whose data
  has the status \<^verbatim>\<open>pending_otp\<close>.
\<close>

definition requires_otp :: "scan_data outcome \<Rightarrow> bool" where
  "requires_otp result =
     (case result of
        Inl m \<Rightarrow> False
      | Inr response \<Rightarrow>
          success response \<and>
          (case data response of None \<Rightarrow> False | Some d \<Rightarrow> sd_status d = ''pending_otp''))"

text \<open>The \<^verbatim>\<open>data\<close> of the response a call came back with, if any.\<close>

definition outcome_data :: "'a outcome \<Rightarrow> 'a option" where
  "outcome_data result = (case result of Inl m \<Rightarrow> None | Inr response \<Rightarrow> data response)"

text \<open>
  The event \<open>e\<close> hands the text \<open>t\<close> to \<^verbatim>\<open>processScan\<close>: the camera reads it while the
  render it holds is neither scanned nor processing, or the guard submits it as the
  (non-blank) text of the manual entry modal.
\<close>

definition scan_entry :: "scanner_world \<Rightarrow> string \<Rightarrow> scanner_event \<Rightarrow> bool" where
  "scan_entry w t e =
     (case e of
        BarcodeScanned d \<Rightarrow> d = t \<and> \<not> scanned (sc_camera w) \<and> \<not> isProcessing (sc_camera w)
      | PressManualSubmit \<Rightarrow>
          showManualEntry (sc_ui w) \<and> manualQrCode (sc_ui w) = t \<and> \<not> blank t
      | _ \<Rightarrow> False)"

text \<open>
  Sample inputs. \<open>sample_env\<close> parses the three sample texts as \<^verbatim>\<open>JSON.parse\<close> does
  and the text \<^verbatim>\<open>null\<close>, and rejects every other text.
\<close>

definition text_1 :: string where
  \<open>text_1 = ''{"invitationId":"inv1","qrCode":"q1"}''\<close>

definition text_2 :: string where
  \<open>text_2 = ''{"invitationId":"inv2","qrCode":"q2"}''\<close>

definition text_3 :: string where
  \<open>text_3 = ''{"invitationId":"inv1"}''\<close>

definition payload_1 :: json where
  "payload_1 = JObj [(''invitationId'', JStr ''inv1''), (''qrCode'', JStr ''q1'')]"

definition payload_2 :: json where
  "payload_2 = JObj [(''invitationId'', JStr ''inv2''), (''qrCode'', JStr ''q2'')]"

definition sample_env :: js_env where
  "sample_env =
     \<lparr>JSON_parse = (\<lambda>t. if t = text_1 then Some payload_1
                         else if t = text_2 then Some payload_2
                         else if t = text_3 then Some (JObj [(''invitationId'', JStr ''inv1'')])
                         else if t = ''null'' then Some JNull
                         else None),
      TypeError_message = Some ''Cannot read properties of null''\<rparr>"

definition alice :: invitation where
  "alice = \<lparr>inv_id = ''inv1'', inv_guestName = Some ''Alice'', inv_guestPhone = ''555-0100'',
            inv_employeeName = ''Eve'', inv_employeePhone = ''555-0199'', inv_securityLevel = 2,
            inv_validFrom = ''2025-01-01'', inv_validTo = ''2025-01-02''\<rparr>"

definition otp_required :: "scan_data outcome" where
  "otp_required =
     Inr \<lparr>success = True,
          data = Some \<lparr>sd_status = ''pending_otp'', sd_message = ''OTP sent'', sd_invitation = alice\<rparr>,
          message = None, error = None\<rparr>"

definition otp_rejected :: "scan_data outcome" where
  "otp_rejected = Inr \<lparr>success = False, data = None, message = None, error = Some ''Invalid OTP''\<rparr>"

definition otp_accepted :: "scan_data outcome" where
  "otp_accepted =
     Inr \<lparr>success = True,
          data = Some \<lparr>sd_status = ''success'', sd_message = ''Access Granted'',
                       sd_invitation = alice\<lparr>inv_guestName := None, inv_guestPhone := []\<rparr>\<rparr>,
          message = None, error = None\<rparr>"

text \<open>
  The scanner after a scan of the first sample text was answered in the requires-OTP
  shape and the guard has submitted the code 000000: the verify call is outstanding.
\<close>

definition awaiting_verify :: scanner_world where
  "awaiting_verify =
     scanner_run sample_env
       [BarcodeScanned text_1, ScanGuestSettles 0 otp_required, ChangeOtpCode ''000000'',
        PressOtpVerify] scanner_start"

text \<open>
  A second guest, a second requires-OTP answer, and a rejected scan.
\<close>

definition bob :: invitation where
  "bob = \<lparr>inv_id = ''inv2'', inv_guestName = Some ''Bob'', inv_guestPhone = ''555-0101'',
          inv_employeeName = ''Eve'', inv_employeePhone = ''555-0199'', inv_securityLevel = 2,
          inv_validFrom = ''2025-01-01'', inv_validTo = ''2025-01-02''\<rparr>"

definition otp_required_2 :: "scan_data outcome" where
  "otp_required_2 =
     Inr \<lparr>success = True,
          data = Some \<lparr>sd_status = ''pending_otp'', sd_message = ''OTP sent'', sd_invitation = bob\<rparr>,
          message = None, error = None\<rparr>"

definition scan_rejected :: "scan_data outcome" where
  "scan_rejected =
     Inr \<lparr>success = False, data = None, message = None, error = Some ''Invitation expired''\<rparr>"

text \<open>
  The scanner with two scans in flight: the guard has opened the manual entry modal and
  entered the second sample text, the camera has read the first sample text, and the
  guard has pressed the modal's submit button.
\<close>

definition two_scans_in_flight :: scanner_world where
  "two_scans_in_flight =
     scanner_run sample_env
       [OpenManualEntry, ChangeManualQrCode text_2, BarcodeScanned text_1, PressManualSubmit]
       scanner_start"

section \<open>Properties of the API client\<close>

lemma try_request_401:
  assumes "tr (request_interceptor st config) = Inl (AxiosError ae)" and "status ae = Some 401"
  shows "try_request tr st config = (deleteItemAsync st ''auth_token'', handleError (AxiosError ae))"
  using assms by (simp add: try_request_def api_send_def response_interceptor_error_def)

lemma invoke_401:
  assumes "answers_401 tr (sent_request st oper) ae"
  shows "invoke tr st oper =
         (deleteItemAsync st ''auth_token'', Some (handleError (AxiosError ae)))"
proof (cases oper)
  case Op_logout
  with assms show ?thesis by (simp add: answers_401_def)
qed (use assms in \<open>simp_all add: answers_401_def try_request_401 login_def getDashboard_def
      getGuardQR_def scanGuest_def verifyOtp_def getProfile_def updateProfile_def\<close>)

text \<open>
  Every method hands the transport the request \<open>sent_request\<close> gives, and returns what
  the transport answers; the bodies of the two requests of the verification flow.
\<close>

lemma invoke_sends:
  "invoke tr st oper =
     (case sent_request st oper of
        None \<Rightarrow> (logout st, None)
      | Some req \<Rightarrow>
          (case tr req of
             Inr response \<Rightarrow> (st, Some response)
           | Inl e \<Rightarrow> (fst (response_interceptor_error st e), Some (handleError e))))"
  by (cases oper)
     (simp_all add: login_def getDashboard_def getGuardQR_def scanGuest_def verifyOtp_def
        getProfile_def updateProfile_def try_request_def api_send_def handleResponse_def
        response_interceptor_error_def split: sum.splits thrown.splits)

lemma verifyOtp_request:
  "map_option payload (sent_request st (Op_verifyOtp (Some a) (Some b) (Some c)))
     = Some (Some (JObj [(''invitationId'', a), (''qrCode'', b), (''otpCode'', c)]))
   \<and> map_option url (sent_request st (Op_verifyOtp (Some a) (Some b) (Some c)))
     = Some (API_BASE_URL @ ''/api/mobile-api/security/verify-otp'')
   \<and> map_option payload (sent_request st (Op_scanGuest (Some a) (Some b)))
     = Some (Some (JObj [(''invitationId'', a), (''qrCode'', b)]))
   \<and> map_option url (sent_request st (Op_scanGuest (Some a) (Some b)))
     = Some (API_BASE_URL @ ''/api/mobile-api/security/scan-guest'')"
  by (simp add: request_interceptor_def request_config_def split: option.splits)

text \<open>
  C4: for every operation of the API client, when the server answers the operation's
  request with HTTP status 401, the stored session token (\<^verbatim>\<open>auth_token\<close>) is gone from
  secure storage in the state the call returns, and the caller receives the error as an
  unsuccessful response; this does not depend on the operation.
\<close>

theorem unauthorized_clears_token:
  assumes "answers_401 tr (sent_request st oper) ae"
  shows "getItemAsync (fst (invoke tr st oper)) ''auth_token'' = None
       \<and> snd (invoke tr st oper) = Some (handleError (AxiosError ae))
       \<and> map_option success (snd (invoke tr st oper)) = Some False"
  using invoke_401 [OF assms]
  by (simp add: getItemAsync_def deleteItemAsync_def handleError_def)

theorem unauthorized_clears_token_witness:
  "answers_401
     ((\<lambda>r. Inl (AxiosError \<lparr>status = Some 401, data_message = Some ''Unauthorized'',
                             axios_message = Some ''Request failed with status code 401''\<rparr>))
        :: unit transport)
     (sent_request [''auth_token'' \<mapsto> ''tok''] (Op_scanGuest (Some (JStr ''inv1'')) (Some (JStr ''q1''))))
     \<lparr>status = Some 401, data_message = Some ''Unauthorized'',
      axios_message = Some ''Request failed with status code 401''\<rparr>
   \<and> getItemAsync [''auth_token'' \<mapsto> ''tok''] ''auth_token'' = Some ''tok''
   \<and> getItemAsync (fst (invoke
        ((\<lambda>r. Inl (AxiosError \<lparr>status = Some 401, data_message = Some ''Unauthorized'',
                                axios_message = Some ''Request failed with status code 401''\<rparr>))
           :: unit transport)
        [''auth_token'' \<mapsto> ''tok'']
        (Op_scanGuest (Some (JStr ''inv1'')) (Some (JStr ''q1''))))) ''auth_token'' = None"
proof -
  let ?ae = "\<lparr>status = Some 401, data_message = Some ''Unauthorized'',
              axios_message = Some ''Request failed with status code 401''\<rparr>"
  let ?tr = "(\<lambda>r. Inl (AxiosError ?ae)) :: unit transport"
  let ?oper = "Op_scanGuest (Some (JStr ''inv1'')) (Some (JStr ''q1''))"
  have h: "answers_401 ?tr (sent_request [''auth_token'' \<mapsto> ''tok''] ?oper) ?ae"
    by (simp add: answers_401_def)
  from unauthorized_clears_token [OF h] h show ?thesis
    by (simp add: getItemAsync_def)
qed

text \<open>
  C10: a 401 answer deletes the \<^verbatim>\<open>auth_token\<close> key only: every other key of secure
  storage, the cached guard profile \<^verbatim>\<open>guard_data\<close> among them, is as it was before the
  call. The context's explicit logout deletes both keys.
\<close>

theorem unauthorized_keeps_guard_data:
  assumes "answers_401 tr (sent_request st oper) ae"
  shows "(\<forall>k. k \<noteq> ''auth_token'' \<longrightarrow>
            getItemAsync (fst (invoke tr st oper)) k = getItemAsync st k)
       \<and> getItemAsync (fst (invoke tr st oper)) ''guard_data'' = getItemAsync st ''guard_data''
       \<and> getItemAsync (fst (AuthContext_logout (st, a))) ''auth_token'' = None
       \<and> getItemAsync (fst (AuthContext_logout (st, a))) ''guard_data'' = None"
  using invoke_401 [OF assms]
  by (simp add: getItemAsync_def deleteItemAsync_def AuthContext_logout_def logout_def Let_def)

theorem unauthorized_keeps_guard_data_witness:
  "answers_401
     ((\<lambda>r. Inl (AxiosError \<lparr>status = Some 401, data_message = None, axios_message = None\<rparr>))
        :: unit transport)
     (sent_request [''auth_token'' \<mapsto> ''tok'', ''guard_data'' \<mapsto> ''{}''] Op_getDashboard)
     \<lparr>status = Some 401, data_message = None, axios_message = None\<rparr>
   \<and> getItemAsync (fst (invoke
        ((\<lambda>r. Inl (AxiosError \<lparr>status = Some 401, data_message = None, axios_message = None\<rparr>))
           :: unit transport)
        [''auth_token'' \<mapsto> ''tok'', ''guard_data'' \<mapsto> ''{}''] Op_getDashboard))
        ''guard_data'' = Some ''{}''
   \<and> getItemAsync (fst (AuthContext_logout
        ([''auth_token'' \<mapsto> ''tok'', ''guard_data'' \<mapsto> ''{}''],
         \<lparr>guard = Some (), token = Some ''tok'', isLoading = False\<rparr>))) ''guard_data'' = None"
proof -
  let ?ae = "\<lparr>status = Some 401, data_message = None, axios_message = None\<rparr>"
  let ?tr = "(\<lambda>r. Inl (AxiosError ?ae)) :: unit transport"
  let ?st = "[''auth_token'' \<mapsto> ''tok'', ''guard_data'' \<mapsto> ''{}'']"
  have h: "answers_401 ?tr (sent_request ?st Op_getDashboard) ?ae"
    by (simp add: answers_401_def)
  from unauthorized_keeps_guard_data
         [OF h, of "\<lparr>guard = Some (), token = Some ''tok'', isLoading = False\<rparr>"] h
  show ?thesis
    by (simp add: getItemAsync_def)
qed

section \<open>Properties of the guard-QR screen\<close>

lemma checkPendingActions_absent: "''checkPendingActions'' \<notin> set ApiService_methods"
  by (simp add: ApiService_methods_def)

lemma shipped_call_throws: "apiService_call ''checkPendingActions'' m result = Inl m"
  by (simp add: apiService_call_def ApiService_methods_def)

lemma poll_tick_thrown: "poll_tick (Inl m) s = s"
  by (simp add: poll_tick_def checkPendingActions_def)

lemma shipped_step_nothing_surfaced:
  assumes "myqr_nothing_surfaced w"
  shows "myqr_nothing_surfaced (myqr_step w (on_shipped_service m e))"
  using assms
  by (cases e)
     (auto simp: myqr_nothing_surfaced_def myqr_step_def shipped_call_throws poll_tick_thrown
        handleL3Acknowledge_def handleCancelL4_def myqr_handleVerifyOtp_def
        myqr_verifyOtp_settles_def myqr_alert_ok_def loadQRCode_def loadQRCode_settles_def
        Let_def split: list.splits myqr_alert.splits option.splits sum.splits)

lemma shipped_run_nothing_surfaced:
  "myqr_nothing_surfaced w \<Longrightarrow>
   myqr_nothing_surfaced (myqr_run (map (on_shipped_service m) es) w)"
  unfolding myqr_run_def
  by (induction es arbitrary: w) (simp_all add: shipped_step_nothing_surfaced)

lemma mounted_nothing_surfaced: "myqr_nothing_surfaced myqr_mounted"
  by (simp add: myqr_nothing_surfaced_def myqr_mounted_def loadQRCode_def myqr_initial_def)

text \<open>
  C9: the class \<^verbatim>\<open>ApiService\<close> declares no \<^verbatim>\<open>checkPendingActions\<close>; so the call of
  every poll tick throws, whatever the server would have answered; the tick's catch
  swallows the error and leaves the state as it was; and on the service as shipped, no
  course of events from the mounted screen ever shows the tier-three or the tier-four
  modal or holds a pending item.
\<close>

theorem shipped_service_never_surfaces:
  "''checkPendingActions'' \<notin> set ApiService_methods
   \<and> apiService_call ''checkPendingActions'' m (result :: pending_actions outcome) = Inl m
   \<and> poll_tick (apiService_call ''checkPendingActions'' m result) s = s
   \<and> myqr_nothing_surfaced (myqr_run (map (on_shipped_service m) es) myqr_mounted)"
  by (simp add: checkPendingActions_absent shipped_call_throws poll_tick_thrown
      shipped_run_nothing_surfaced mounted_nothing_surfaced)

text \<open>
  What a tick does on a service that answers: whenever the response reports tier-three
  scans, the first one is surfaced, whatever the screen shows at that moment. The guard
  \<^verbatim>\<open>!showL3Modal\<close> reads the first render, where no modal is shown.
\<close>

lemma poll_tick_surfaces_first:
  assumes "result = Inr response" and "success response" and "data response = Some d"
      and "hasL3Scans d" and "pendingL3Scans d = x # xs"
  shows "showL3Modal (poll_tick result s) \<and> l3ScanData (poll_tick result s) = Some x"
  using assms
  by (simp add: poll_tick_def checkPendingActions_def myqr_initial_def Let_def split: list.splits)

text \<open>
  The guard as written does hold a surfaced scan when the function reads a render in
  which the modal is shown.
\<close>

lemma checkPendingActions_guard:
  assumes "showL3Modal r"
  shows "showL3Modal (checkPendingActions r result s) = showL3Modal s
       \<and> l3ScanData (checkPendingActions r result s) = l3ScanData s"
  using assms
  by (simp add: checkPendingActions_def Let_def split: list.splits sum.splits option.splits)

text \<open>
  So on a service that answers (the service as shipped never does): a first tick reports
  the scans A and B and surfaces A; a second tick reports B alone while the modal for A
  is still shown and unacknowledged; the surfaced scan is then B.
\<close>

lemma poll_tick_replaces_surfaced_scan:
  "showL3Modal (mq_ui (myqr_run [PollTick (l3_response [scan_A, scan_B])] myqr_mounted))
   \<and> l3ScanData (mq_ui (myqr_run [PollTick (l3_response [scan_A, scan_B])] myqr_mounted))
       = Some scan_A
   \<and> showL3Modal (mq_ui (myqr_run [PollTick (l3_response [scan_A, scan_B]),
                                   PollTick (l3_response [scan_B])] myqr_mounted))
   \<and> l3ScanData (mq_ui (myqr_run [PollTick (l3_response [scan_A, scan_B]),
                                  PollTick (l3_response [scan_B])] myqr_mounted))
       = Some scan_B
   \<and> scan_B \<noteq> scan_A"
  by (simp add: myqr_run_def myqr_step_def poll_tick_def checkPendingActions_def l3_response_def
      myqr_initial_def myqr_mounted_def loadQRCode_def scan_A_def scan_B_def Let_def)

section \<open>Properties of the scanner screen\<close>

subsection \<open>What the handlers do\<close>

lemma read_prop_JNull [simp]: "read_prop JNull k = None"
  by (simp add: read_prop_def)

lemma truthy_of_read_prop:
  assumes "truthy_opt (read_prop j k)"
  shows "truthy j"
  using assms by (cases j) (simp_all add: read_prop_def truthy_opt_def)

lemma processScan_malformed:
  assumes "malformed env t"
  shows "processScan env manual t w =
         w\<lparr>sc_ui := scan_finished manual
              ((sc_ui w)\<lparr>isProcessing := True,
                 scanResult := Some (scan_failed
                   (case JSON_parse env t of
                      None \<Rightarrow> Some ''Invalid QR code format''
                    | Some j \<Rightarrow> if j = JNull then TypeError_message env
                                else Some ''Missing required QR data''))\<rparr>)\<rparr>"
  using assms
  by (auto simp: malformed_def processScan_def Let_def split: option.splits)

lemma processScan_wellformed:
  assumes "JSON_parse env t = Some j"
      and "truthy_opt (read_prop j ''invitationId'')" and "truthy_opt (read_prop j ''qrCode'')"
  shows "processScan env manual t w =
         w\<lparr>sc_ui := (sc_ui w)\<lparr>isProcessing := True\<rparr>,
           sc_calls := sc_calls w @
             [Op_scanGuest (read_prop j ''invitationId'') (read_prop j ''qrCode'')],
           sc_scanning := sc_scanning w @ [(j, manual)]\<rparr>"
proof -
  from assms(2) have "j \<noteq> JNull" by (auto simp: truthy_opt_def)
  with assms show ?thesis by (simp add: processScan_def Let_def)
qed

lemma scan_entry_cases:
  assumes "scan_entry w t e"
  obtains (camera) "e = BarcodeScanned t" "\<not> scanned (sc_camera w)" "\<not> isProcessing (sc_camera w)"
        | (manual) "e = PressManualSubmit" "showManualEntry (sc_ui w)"
                   "manualQrCode (sc_ui w) = t" "\<not> blank t"
  using assms by (cases e) (auto simp: scan_entry_def)

lemma entry_accepts:
  assumes "scan_entry w t e" and "JSON_parse env t = Some j"
      and "truthy_opt (read_prop j ''invitationId'')" and "truthy_opt (read_prop j ''qrCode'')"
  shows "\<exists>manual.
           sc_calls (scanner_step env w e) = sc_calls w @
             [Op_scanGuest (read_prop j ''invitationId'') (read_prop j ''qrCode'')]
         \<and> sc_scanning (scanner_step env w e) = sc_scanning w @ [(j, manual)]
         \<and> sc_verifying (scanner_step env w e) = sc_verifying w
         \<and> scanned (sc_ui (scanner_step env w e))"
  using assms(1)
proof (cases rule: scan_entry_cases)
  case camera
  then show ?thesis
    by (intro exI [of _ False])
       (simp add: scanner_step_def handleBarCodeScanned_def Let_def
        processScan_wellformed [OF assms(2-4)])
next
  case manual
  then show ?thesis
    by (intro exI [of _ True])
       (simp add: scanner_step_def handleManualEntry_def Let_def
        processScan_wellformed [OF assms(2-4)])
qed

lemma scan_response_pending_otp:
  assumes "result = Inr response" and "success response" and "data response = Some d"
      and "sd_status d = ''pending_otp''"
  shows "scan_response p result u =
         u\<lparr>pendingOtpData := Some p,
           scanResult := Some
             \<lparr>sr_success = True, sr_message = ''OTP Required'',
              sr_guestName = inv_guestName (sd_invitation d),
              sr_guestPhone = Some (inv_guestPhone (sd_invitation d)),
              sr_securityLevel = Some (inv_securityLevel (sd_invitation d)),
              sr_requiresOtp = Some True,
              sr_invitationId = read_prop p ''invitationId'',
              sr_qrCode = read_prop p ''qrCode''\<rparr>,
           showOtpModal := True\<rparr>"
  using assms by (simp add: scan_response_def)

lemma requires_otp_cases:
  assumes "requires_otp result" and "outcome_data result = Some d"
  obtains response where "result = Inr response" and "success response"
    and "data response = Some d" and "sd_status d = ''pending_otp''"
  using assms
  by (cases result) (auto simp: requires_otp_def outcome_data_def split: option.splits)

lemma verify_accepted_cases:
  assumes "verify_accepted result" and "outcome_data result = Some d"
  obtains response where "result = Inr response" and "success response"
    and "data response = Some d"
  using assms
  by (cases result) (auto simp: verify_accepted_def outcome_data_def)

lemma scan_settles_pending_otp:
  assumes "sc_scanning w = xs @ [(p, manual)]"
      and "requires_otp result" and "outcome_data result = Some d"
  shows "scanResult (sc_ui (scanner_step env w (ScanGuestSettles (length xs) result))) = Some
           \<lparr>sr_success = True, sr_message = ''OTP Required'',
            sr_guestName = inv_guestName (sd_invitation d),
            sr_guestPhone = Some (inv_guestPhone (sd_invitation d)),
            sr_securityLevel = Some (inv_securityLevel (sd_invitation d)),
            sr_requiresOtp = Some True,
            sr_invitationId = read_prop p ''invitationId'',
            sr_qrCode = read_prop p ''qrCode''\<rparr>
       \<and> showOtpModal (sc_ui (scanner_step env w (ScanGuestSettles (length xs) result)))
       \<and> pendingOtpData (sc_ui (scanner_step env w (ScanGuestSettles (length xs) result))) = Some p
       \<and> \<not> isProcessing (sc_ui (scanner_step env w (ScanGuestSettles (length xs) result)))
       \<and> scanned (sc_ui (scanner_step env w (ScanGuestSettles (length xs) result)))
           = scanned (sc_ui w)
       \<and> sc_calls (scanner_step env w (ScanGuestSettles (length xs) result)) = sc_calls w
       \<and> sc_verifying (scanner_step env w (ScanGuestSettles (length xs) result)) = sc_verifying w"
proof -
  from assms(2,3) obtain response where r: "result = Inr response" "success response"
    "data response = Some d" "sd_status d = ''pending_otp''" by (rule requires_otp_cases)
  show ?thesis
    by (simp add: scanner_step_def processScan_settles_def assms(1) scan_finished_def Let_def
        scan_response_pending_otp [OF r])
qed

lemma verify_sends_retained_pair:
  assumes "pendingOtpData (sc_ui w) = Some p" and "truthy p" and "\<not> blank (otpCode (sc_ui w))"
  shows "handleVerifyOtp w =
         w\<lparr>sc_ui := (sc_ui w)\<lparr>isProcessing := True\<rparr>,
           sc_calls := sc_calls w @
             [Op_verifyOtp (read_prop p ''invitationId'') (read_prop p ''qrCode'')
                (Some (JStr (otpCode (sc_ui w))))],
           sc_verifying := sc_verifying w @ [scanResult (sc_ui w)]\<rparr>"
  using assms by (simp add: handleVerifyOtp_def Let_def)

lemma press_verify_sends:
  assumes "showOtpModal (sc_ui w)" and "\<not> isProcessing (sc_ui w)"
      and "pendingOtpData (sc_ui w) = Some p" and "truthy p" and "\<not> blank (otpCode (sc_ui w))"
  shows "scanner_step env w PressOtpVerify =
         w\<lparr>sc_ui := (sc_ui w)\<lparr>isProcessing := True\<rparr>,
           sc_calls := sc_calls w @
             [Op_verifyOtp (read_prop p ''invitationId'') (read_prop p ''qrCode'')
                (Some (JStr (otpCode (sc_ui w))))],
           sc_verifying := sc_verifying w @ [scanResult (sc_ui w)]\<rparr>"
  using assms by (simp add: scanner_step_def verify_sends_retained_pair)

lemma change_otp_code:
  assumes "showOtpModal (sc_ui w)" and "length c \<le> 6"
  shows "scanner_step env w (ChangeOtpCode c) = w\<lparr>sc_ui := (sc_ui w)\<lparr>otpCode := c\<rparr>\<rparr>"
  using assms by (simp add: scanner_step_def)

lemma verify_settles_rejected:
  assumes "i < length (sc_verifying w)" and "\<not> verify_accepted result"
  shows "sc_ui (handleVerifyOtp_settles i result w) = (sc_ui w)\<lparr>isProcessing := False\<rparr>
       \<and> sc_calls (handleVerifyOtp_settles i result w) = sc_calls w
       \<and> sc_scanning (handleVerifyOtp_settles i result w) = sc_scanning w
       \<and> sc_verifying (handleVerifyOtp_settles i result w) = remove_nth i (sc_verifying w)
       \<and> length (sc_alerts (handleVerifyOtp_settles i result w)) = Suc (length (sc_alerts w))"
  using assms
  by (auto simp: handleVerifyOtp_settles_def verify_accepted_def Let_def
      split: sum.splits option.splits)

lemma verify_settles_accepted:
  assumes "i < length (sc_verifying w)" and "result = Inr response" and "success response"
      and "data response = Some d"
  shows "handleVerifyOtp_settles i result w =
         w\<lparr>sc_ui := (sc_ui w)\<lparr>scanResult := Some (verify_granted (sc_verifying w ! i) d),
                               showOtpModal := False, otpCode := [],
                               pendingOtpData := None, isProcessing := False\<rparr>,
           sc_verifying := remove_nth i (sc_verifying w)\<rparr>"
  using assms by (simp add: handleVerifyOtp_settles_def Let_def)

lemma verify_settles_granted:
  assumes "sc_verifying w = ys @ [shown]"
      and "verify_accepted result" and "outcome_data result = Some d"
  shows "sc_ui (scanner_step env w (OtpVerifySettles (length ys) result)) =
         (sc_ui w)\<lparr>scanResult := Some (verify_granted shown d),
                    showOtpModal := False, otpCode := [],
                    pendingOtpData := None, isProcessing := False\<rparr>"
proof -
  from assms(2,3) obtain response where r: "result = Inr response" "success response"
    "data response = Some d" by (rule verify_accepted_cases)
  have "length ys < length (sc_verifying w)" by (simp add: assms(1))
  then show ?thesis
    by (simp add: scanner_step_def verify_settles_accepted [OF _ r] assms(1))
qed

lemma showOtpModal_scan_finished [simp]:
  "showOtpModal (scan_finished manual u) = showOtpModal u"
  by (simp add: scan_finished_def Let_def)

lemma showOtpModal_processScan [simp]:
  "showOtpModal (sc_ui (processScan env manual t w)) = showOtpModal (sc_ui w)"
  by (simp add: processScan_def Let_def split: option.splits)

lemma showOtpModal_scan_response:
  "showOtpModal u \<Longrightarrow> showOtpModal (scan_response p result u)"
  by (simp add: scan_response_def split: sum.splits option.splits)

lemma showOtpModal_handleVerifyOtp [simp]:
  "showOtpModal (sc_ui (handleVerifyOtp w)) = showOtpModal (sc_ui w)"
  by (simp add: handleVerifyOtp_def Let_def split: option.splits)

lemma showOtpModal_verify_settles:
  assumes "showOtpModal (sc_ui w)" and "\<not> verify_accepted result"
  shows "showOtpModal (sc_ui (handleVerifyOtp_settles i result w))"
  using assms
  by (simp add: handleVerifyOtp_settles_def verify_accepted_def Let_def
      split: sum.splits option.splits)

lemma otp_modal_closed_by:
  assumes "showOtpModal (sc_ui w)" and "\<not> showOtpModal (sc_ui (scanner_step env w e))"
  shows "e = PressOtpCancel \<or> (\<exists>i result. e = OtpVerifySettles i result \<and> verify_accepted result)"
proof (cases e)
  case (BarcodeScanned d)
  with assms show ?thesis
    by (simp add: scanner_step_def handleBarCodeScanned_def Let_def split: if_splits)
next
  case PressManualSubmit
  with assms show ?thesis
    by (simp add: scanner_step_def handleManualEntry_def Let_def split: if_splits)
next
  case PressOtpVerify
  with assms show ?thesis
    by (simp add: scanner_step_def split: if_splits)
next
  case (ScanGuestSettles i result)
  with assms show ?thesis
    by (simp add: scanner_step_def processScan_settles_def showOtpModal_scan_response
        split: if_splits prod.splits)
next
  case (OtpVerifySettles i result)
  with assms showOtpModal_verify_settles [of w result i] show ?thesis
    by (cases "verify_accepted result") (auto simp: scanner_step_def split: if_splits)
qed (use assms in \<open>simp_all add: scanner_step_def resetScanner_def split: if_splits\<close>)

lemma retry_after_rejection:
  assumes "i < length (sc_verifying w)" and "\<not> verify_accepted result"
      and "showOtpModal (sc_ui w)" and "pendingOtpData (sc_ui w) = Some p" and "truthy p"
      and "length c \<le> 6" and "\<not> blank c"
  shows "sc_calls (scanner_run env [OtpVerifySettles i result, ChangeOtpCode c, PressOtpVerify] w)
         = sc_calls w @
             [Op_verifyOtp (read_prop p ''invitationId'') (read_prop p ''qrCode'') (Some (JStr c))]"
proof -
  define w1 where "w1 = scanner_step env w (OtpVerifySettles i result)"
  define w2 where "w2 = scanner_step env w1 (ChangeOtpCode c)"
  have w1_eq: "w1 = handleVerifyOtp_settles i result w"
    using assms(1) by (simp add: w1_def scanner_step_def)
  have ui1: "sc_ui w1 = (sc_ui w)\<lparr>isProcessing := False\<rparr>" and calls1: "sc_calls w1 = sc_calls w"
    using verify_settles_rejected [OF assms(1,2)] by (simp_all add: w1_eq)
  have w2_eq: "w2 = w1\<lparr>sc_ui := (sc_ui w1)\<lparr>otpCode := c\<rparr>\<rparr>"
    using assms(3,6) by (simp add: w2_def scanner_step_def ui1)
  have en: "scanner_enabled w2 PressOtpVerify"
    using assms(3,7) by (simp add: w2_eq ui1)
  have "sc_calls (scanner_step env w2 PressOtpVerify) = sc_calls (handleVerifyOtp w2)"
    using en by (simp add: scanner_step_def)
  also have "\<dots> = sc_calls w2 @
                [Op_verifyOtp (read_prop p ''invitationId'') (read_prop p ''qrCode'')
                   (Some (JStr c))]"
    by (subst verify_sends_retained_pair [where p = p])
       (use assms(4,5,7) in \<open>simp_all add: w2_eq ui1\<close>)
  finally show ?thesis
    by (simp add: scanner_run_def w1_def [symmetric] w2_def [symmetric])
       (simp add: w2_eq calls1)
qed

lemma texts_distinct: "text_1 \<noteq> text_2" "text_2 \<noteq> text_1" "text_3 \<noteq> text_1" "text_3 \<noteq> text_2"
  by (simp_all add: text_1_def text_2_def text_3_def)

lemma sample_parse_1: "JSON_parse sample_env text_1 = Some payload_1"
  by (simp add: sample_env_def)

lemma sample_parse_2: "JSON_parse sample_env text_2 = Some payload_2"
  by (simp add: sample_env_def texts_distinct)

lemma not_blank_1: "\<not> blank text_1" "\<not> blank text_2"
  by (simp_all add: blank_def js_whitespace_def text_1_def text_2_def)

lemma awaiting_verify_eq:
  "awaiting_verify =
     \<lparr>sc_ui = \<lparr>scanned = True, flashEnabled = False,
               scanResult = Some
                 \<lparr>sr_success = True, sr_message = ''OTP Required'',
                  sr_guestName = Some ''Alice'', sr_guestPhone = Some ''555-0100'',
                  sr_securityLevel = Some 2, sr_requiresOtp = Some True,
                  sr_invitationId = Some (JStr ''inv1''), sr_qrCode = Some (JStr ''q1'')\<rparr>,
               showManualEntry = False, showOtpModal = True, manualQrCode = [],
               otpCode = ''000000'', isProcessing = True, pendingOtpData = Some payload_1\<rparr>,
      sc_camera = scanner_initial,
      sc_calls = [Op_scanGuest (Some (JStr ''inv1'')) (Some (JStr ''q1'')),
                  Op_verifyOtp (Some (JStr ''inv1'')) (Some (JStr ''q1''))
                    (Some (JStr ''000000''))],
      sc_scanning = [],
      sc_verifying = [Some
                 \<lparr>sr_success = True, sr_message = ''OTP Required'',
                  sr_guestName = Some ''Alice'', sr_guestPhone = Some ''555-0100'',
                  sr_securityLevel = Some 2, sr_requiresOtp = Some True,
                  sr_invitationId = Some (JStr ''inv1''), sr_qrCode = Some (JStr ''q1'')\<rparr>],
      sc_alerts = []\<rparr>"
  by (simp add: awaiting_verify_def scanner_run_def scanner_step_def scanner_start_def
      scanner_initial_def handleBarCodeScanned_def processScan_def processScan_settles_def
      scan_response_def scan_finished_def handleVerifyOtp_def Let_def remove_nth_def
      otp_required_def alice_def sample_parse_1 payload_1_def read_prop_def truthy_opt_def
      blank_def js_whitespace_def)

lemma two_scans_in_flight_eq:
  "two_scans_in_flight =
     \<lparr>sc_ui = \<lparr>scanned = True, flashEnabled = False, scanResult = None,
               showManualEntry = False, showOtpModal = False, manualQrCode = text_2,
               otpCode = [], isProcessing = True, pendingOtpData = None\<rparr>,
      sc_camera = scanner_initial,
      sc_calls = [Op_scanGuest (Some (JStr ''inv1'')) (Some (JStr ''q1'')),
                  Op_scanGuest (Some (JStr ''inv2'')) (Some (JStr ''q2''))],
      sc_scanning = [(payload_1, False), (payload_2, True)],
      sc_verifying = [],
      sc_alerts = []\<rparr>"
  by (simp add: two_scans_in_flight_def scanner_run_def scanner_step_def scanner_start_def
      scanner_initial_def handleBarCodeScanned_def handleManualEntry_def processScan_def Let_def
      sample_parse_1 sample_parse_2 not_blank_1 payload_1_def payload_2_def
      read_prop_def truthy_opt_def)

text \<open>
  The camera path rejects a read when the render the camera view holds is scanned or
  processing. Two reads that reach the handler of one render both pass its guard; a
  re-render in between makes the second one rejected.
\<close>

lemma camera_double_read:
  "sc_calls (scanner_run sample_env [BarcodeScanned text_1, BarcodeScanned text_2] scanner_start)
     = [Op_scanGuest (Some (JStr ''inv1'')) (Some (JStr ''q1'')),
        Op_scanGuest (Some (JStr ''inv2'')) (Some (JStr ''q2''))]
   \<and> sc_calls (scanner_run sample_env
        [BarcodeScanned text_1, CameraRerender, BarcodeScanned text_2] scanner_start)
     = [Op_scanGuest (Some (JStr ''inv1'')) (Some (JStr ''q1''))]"
  by (simp add: scanner_run_def scanner_step_def scanner_start_def
      scanner_initial_def handleBarCodeScanned_def processScan_def Let_def
      sample_parse_1 sample_parse_2 payload_1_def payload_2_def
      read_prop_def truthy_opt_def)

lemma camera_scan_rejected_in_render:
  assumes "scanned (sc_camera w) \<or> isProcessing (sc_camera w)"
  shows "scanner_step env w (BarcodeScanned d) = w"
  using assms by (auto simp: scanner_step_def handleBarCodeScanned_def)

lemma otp_verify_rejected_while_processing:
  assumes "isProcessing (sc_ui w)"
  shows "scanner_step env w PressOtpVerify = w"
  using assms by (simp add: scanner_step_def)

lemma scanner_verify_requires_nonblank:
  assumes "sc_calls (scanner_step env w PressOtpVerify) \<noteq> sc_calls w"
  shows "\<not> blank (otpCode (sc_ui w)) \<and> \<not> isProcessing (sc_ui w)"
  using assms by (auto simp: scanner_step_def split: if_splits)

lemma myqr_verify_requires_six:
  assumes "mq_calls (myqr_step w PressVerifyOtp) \<noteq> mq_calls w"
  shows "length (otpInput (mq_ui w)) = 6 \<and> \<not> isVerifyingOtp (mq_ui w)"
  using assms by (auto simp: myqr_step_def split: if_splits)

subsection \<open>The claims\<close>

text \<open>
  C3: when the scan text is malformed, \<^verbatim>\<open>processScan\<close> calls the service not at all,
  leaves no call outstanding, and ends with an unsuccessful result shown (the result card
  reads Access Denied) and \<^verbatim>\<open>isProcessing\<close> cleared; so does the step of either entry
  path that hands the text over, after which the screen is in its scanned state.
\<close>

theorem malformed_scan_denied:
  assumes "malformed env t"
  shows "sc_calls (processScan env manual t w) = sc_calls w
       \<and> sc_scanning (processScan env manual t w) = sc_scanning w
       \<and> map_option sr_success (scanResult (sc_ui (processScan env manual t w))) = Some False
       \<and> \<not> isProcessing (sc_ui (processScan env manual t w))
       \<and> (scan_entry w t e \<longrightarrow>
            sc_calls (scanner_step env w e) = sc_calls w
          \<and> sc_scanning (scanner_step env w e) = sc_scanning w
          \<and> scanned (sc_ui (scanner_step env w e))
          \<and> map_option sr_success (scanResult (sc_ui (scanner_step env w e))) = Some False
          \<and> \<not> isProcessing (sc_ui (scanner_step env w e)))"
proof -
  note ps = processScan_malformed [OF assms]
  have "sc_calls (scanner_step env w e) = sc_calls w
          \<and> sc_scanning (scanner_step env w e) = sc_scanning w
          \<and> scanned (sc_ui (scanner_step env w e))
          \<and> map_option sr_success (scanResult (sc_ui (scanner_step env w e))) = Some False
          \<and> \<not> isProcessing (sc_ui (scanner_step env w e))"
    if "scan_entry w t e"
    using that
  proof (cases rule: scan_entry_cases)
    case camera
    then show ?thesis
      by (simp add: ps scan_finished_def scan_failed_def Let_def scanner_step_def
          handleBarCodeScanned_def)
  next
    case manual
    then show ?thesis
      by (simp add: ps scan_finished_def scan_failed_def Let_def scanner_step_def
          handleManualEntry_def)
  qed
  then show ?thesis
    by (simp add: ps scan_finished_def scan_failed_def Let_def)
qed

theorem malformed_scan_denied_witness:
  "malformed sample_env ''not json'' \<and> malformed sample_env text_3
   \<and> scan_entry scanner_start ''not json'' (BarcodeScanned ''not json'')
   \<and> sc_calls (scanner_step sample_env scanner_start (BarcodeScanned ''not json'')) = []
   \<and> sc_scanning (scanner_step sample_env scanner_start (BarcodeScanned ''not json'')) = []
   \<and> scanned (sc_ui (scanner_step sample_env scanner_start (BarcodeScanned ''not json'')))
   \<and> map_option sr_success
        (scanResult (sc_ui (scanner_step sample_env scanner_start (BarcodeScanned ''not json''))))
       = Some False
   \<and> sc_calls (processScan sample_env False text_3 scanner_start) = []
   \<and> map_option sr_success (scanResult (sc_ui (processScan sample_env False text_3 scanner_start)))
       = Some False"
proof -
  have h: "malformed sample_env ''not json''"
    by (simp add: malformed_def sample_env_def text_1_def text_2_def text_3_def)
  have h3: "malformed sample_env text_3"
    by (simp add: malformed_def sample_env_def texts_distinct read_prop_def truthy_opt_def)
  have e: "scan_entry scanner_start ''not json'' (BarcodeScanned ''not json'')"
    by (simp add: scan_entry_def scanner_start_def scanner_initial_def)
  have z: "sc_calls scanner_start = []" "sc_scanning scanner_start = []"
    by (simp_all add: scanner_start_def)
  from malformed_scan_denied [OF h, of False scanner_start "BarcodeScanned ''not json''"]
       malformed_scan_denied [OF h3, of False scanner_start "BarcodeScanned text_3"]
       h h3 e z
  show ?thesis by simp
qed

text \<open>
  The round trip when nothing comes between its steps: a well-formed text enters by
  either path and the service is called with the pair of the parsed payload; that call
  comes back in the requires-OTP shape, the OTP modal is shown, the parsed payload is
  retained as \<^verbatim>\<open>pendingOtpData\<close> and the result holds the same pair, with no further
  call made; the guard enters a code, and pressing verify calls the service with the pair
  of the scan request and the code as entered.
\<close>

lemma direct_otp_round_trip:
  assumes "scan_entry w t e" and "JSON_parse env t = Some j"
      and "truthy_opt (read_prop j ''invitationId'')" and "truthy_opt (read_prop j ''qrCode'')"
      and "requires_otp result"
      and "length c \<le> 6" and "\<not> blank c"
  shows "let w1 = scanner_step env w e;
             w2 = scanner_step env w1 (ScanGuestSettles (length (sc_scanning w)) result);
             w3 = scanner_step env w2 (ChangeOtpCode c);
             w4 = scanner_step env w3 PressOtpVerify
         in sc_calls w1 = sc_calls w @
              [Op_scanGuest (read_prop j ''invitationId'') (read_prop j ''qrCode'')]
          \<and> sc_calls w2 = sc_calls w1
          \<and> showOtpModal (sc_ui w2)
          \<and> pendingOtpData (sc_ui w2) = Some j
          \<and> map_option sr_invitationId (scanResult (sc_ui w2)) = Some (read_prop j ''invitationId'')
          \<and> map_option sr_qrCode (scanResult (sc_ui w2)) = Some (read_prop j ''qrCode'')
          \<and> pendingOtpData (sc_ui w3) = Some j
          \<and> sc_calls w3 = sc_calls w1
          \<and> sc_calls w4 = sc_calls w1 @
              [Op_verifyOtp (read_prop j ''invitationId'') (read_prop j ''qrCode'')
                 (Some (JStr c))]"
proof -
  define w1 where "w1 = scanner_step env w e"
  define w2 where "w2 = scanner_step env w1 (ScanGuestSettles (length (sc_scanning w)) result)"
  define w3 where "w3 = scanner_step env w2 (ChangeOtpCode c)"
  define w4 where "w4 = scanner_step env w3 PressOtpVerify"
  from entry_accepts [OF assms(1-4)] obtain manual where
    c1: "sc_calls w1 = sc_calls w @
           [Op_scanGuest (read_prop j ''invitationId'') (read_prop j ''qrCode'')]"
    and q1: "sc_scanning w1 = sc_scanning w @ [(j, manual)]"
    unfolding w1_def by blast
  from assms(5) obtain d where d: "outcome_data result = Some d"
    by (cases result) (auto simp: requires_otp_def outcome_data_def split: option.splits)
  note s2 = scan_settles_pending_otp [OF q1 assms(5) d, of env, folded w2_def]
  have w3_eq: "w3 = w2\<lparr>sc_ui := (sc_ui w2)\<lparr>otpCode := c\<rparr>\<rparr>"
    unfolding w3_def using s2 assms(6) by (intro change_otp_code) simp_all
  have tj: "truthy j" by (rule truthy_of_read_prop [OF assms(3)])
  have w4_eq: "w4 = w3\<lparr>sc_ui := (sc_ui w3)\<lparr>isProcessing := True\<rparr>,
           sc_calls := sc_calls w3 @
             [Op_verifyOtp (read_prop j ''invitationId'') (read_prop j ''qrCode'')
                (Some (JStr (otpCode (sc_ui w3))))],
           sc_verifying := sc_verifying w3 @ [scanResult (sc_ui w3)]\<rparr>"
    unfolding w4_def using s2 tj assms(7) by (intro press_verify_sends) (simp_all add: w3_eq)
  have c4: "sc_calls w4 = sc_calls w1 @
              [Op_verifyOtp (read_prop j ''invitationId'') (read_prop j ''qrCode'') (Some (JStr c))]"
    using s2 by (simp add: w4_eq w3_eq)
  show ?thesis
    unfolding Let_def w1_def [symmetric] w2_def [symmetric] w3_def [symmetric] w4_def [symmetric]
    using s2 c1 c4 by (simp add: w3_eq)
qed

lemma direct_otp_round_trip_example:
  "scan_entry scanner_start text_1 (BarcodeScanned text_1)
   \<and> JSON_parse sample_env text_1 = Some payload_1
   \<and> truthy_opt (read_prop payload_1 ''invitationId'')
   \<and> truthy_opt (read_prop payload_1 ''qrCode'')
   \<and> requires_otp otp_required
   \<and> length ''482913'' \<le> (6::nat) \<and> \<not> blank ''482913''
   \<and> sc_calls (scanner_step sample_env
        (scanner_step sample_env
          (scanner_step sample_env
            (scanner_step sample_env scanner_start (BarcodeScanned text_1))
            (ScanGuestSettles 0 otp_required))
          (ChangeOtpCode ''482913''))
        PressOtpVerify)
       = [Op_scanGuest (Some (JStr ''inv1'')) (Some (JStr ''q1'')),
          Op_verifyOtp (Some (JStr ''inv1'')) (Some (JStr ''q1'')) (Some (JStr ''482913''))]"
proof -
  have h1: "scan_entry scanner_start text_1 (BarcodeScanned text_1)"
    by (simp add: scan_entry_def scanner_start_def scanner_initial_def)
  have h5: "truthy_opt (read_prop payload_1 ''invitationId'')"
    and h6: "truthy_opt (read_prop payload_1 ''qrCode'')"
    by (simp_all add: payload_1_def read_prop_def truthy_opt_def)
  have h7: "requires_otp otp_required"
    by (simp add: requires_otp_def otp_required_def)
  have h8: "length ''482913'' \<le> (6::nat)" by simp
  have h9: "\<not> blank ''482913''" by (simp add: blank_def js_whitespace_def)
  have z: "sc_calls scanner_start = []" "sc_scanning scanner_start = []"
    by (simp_all add: scanner_start_def)
  have p1: "read_prop payload_1 ''invitationId'' = Some (JStr ''inv1'')"
    and p2: "read_prop payload_1 ''qrCode'' = Some (JStr ''q1'')"
    by (simp_all add: payload_1_def read_prop_def)
  from direct_otp_round_trip [OF h1 sample_parse_1 h5 h6 h7 h8 h9]
  have "sc_calls (scanner_step sample_env
        (scanner_step sample_env
          (scanner_step sample_env
            (scanner_step sample_env scanner_start (BarcodeScanned text_1))
            (ScanGuestSettles 0 otp_required))
          (ChangeOtpCode ''482913''))
        PressOtpVerify)
       = [Op_scanGuest (Some (JStr ''inv1'')) (Some (JStr ''q1'')),
          Op_verifyOtp (Some (JStr ''inv1'')) (Some (JStr ''q1'')) (Some (JStr ''482913''))]"
    by (simp add: Let_def z p1 p2)
  with h1 sample_parse_1 h5 h6 h7 h8 h9 show ?thesis by (intro conjI)
qed

text \<open>
  C1 (the code departs from the claim): with the two scans of the course of events of C2
  in flight, the first is answered in the requires-OTP shape: the OTP modal is shown and
  the payload of the first scan, with the pair inv1 and q1, is retained. The second scan
  is then answered in the same shape, and its payload replaces the retained one: the
  verify request the guard makes next carries the pair inv2 and q2, in the call and in
  the body sent.
\<close>

theorem later_scan_replaces_retained_pair:
  "showOtpModal (sc_ui (scanner_run sample_env [ScanGuestSettles 0 otp_required] two_scans_in_flight))
   \<and> pendingOtpData (sc_ui (scanner_run sample_env [ScanGuestSettles 0 otp_required]
        two_scans_in_flight)) = Some payload_1
   \<and> read_prop payload_1 ''invitationId'' = Some (JStr ''inv1'')
   \<and> read_prop payload_1 ''qrCode'' = Some (JStr ''q1'')
   \<and> sc_calls (scanner_run sample_env
        [ScanGuestSettles 0 otp_required, ScanGuestSettles 0 otp_required_2,
         ChangeOtpCode ''482913'', PressOtpVerify] two_scans_in_flight)
       = [Op_scanGuest (Some (JStr ''inv1'')) (Some (JStr ''q1'')),
          Op_scanGuest (Some (JStr ''inv2'')) (Some (JStr ''q2'')),
          Op_verifyOtp (Some (JStr ''inv2'')) (Some (JStr ''q2'')) (Some (JStr ''482913''))]
   \<and> map_option payload (sent_request st
        (Op_verifyOtp (Some (JStr ''inv2'')) (Some (JStr ''q2'')) (Some (JStr ''482913''))))
       = Some (Some (JObj [(''invitationId'', JStr ''inv2''), (''qrCode'', JStr ''q2''),
                           (''otpCode'', JStr ''482913'')]))"
  by (simp add: two_scans_in_flight_eq scanner_run_def scanner_step_def
      processScan_settles_def scan_response_def scan_finished_def handleVerifyOtp_def Let_def
      remove_nth_def otp_required_def otp_required_2_def payload_1_def payload_2_def
      read_prop_def truthy_opt_def blank_def js_whitespace_def
      request_interceptor_def request_config_def split: option.splits)

text \<open>
  C2 (the code departs from the claim): the guard opens the manual entry modal and enters
  the second sample text; the camera, still rendered behind the modal, reads the first
  sample text, and its call is in flight with \<^verbatim>\<open>isProcessing\<close> set; the guard presses
  the modal's submit button. \<^verbatim>\<open>handleManualEntry\<close> tests neither \<^verbatim>\<open>scanned\<close> nor
  \<^verbatim>\<open>isProcessing\<close>: a second call is made and two are outstanding.
\<close>

theorem manual_entry_second_call_in_flight:
  "isProcessing (sc_ui (scanner_run sample_env
      [OpenManualEntry, ChangeManualQrCode text_2, BarcodeScanned text_1] scanner_start))
   \<and> sc_calls (scanner_run sample_env
      [OpenManualEntry, ChangeManualQrCode text_2, BarcodeScanned text_1] scanner_start)
       = [Op_scanGuest (Some (JStr ''inv1'')) (Some (JStr ''q1''))]
   \<and> sc_calls (scanner_run sample_env
      [OpenManualEntry, ChangeManualQrCode text_2, BarcodeScanned text_1, PressManualSubmit]
      scanner_start)
       = [Op_scanGuest (Some (JStr ''inv1'')) (Some (JStr ''q1'')),
          Op_scanGuest (Some (JStr ''inv2'')) (Some (JStr ''q2''))]
   \<and> sc_scanning (scanner_run sample_env
      [OpenManualEntry, ChangeManualQrCode text_2, BarcodeScanned text_1, PressManualSubmit]
      scanner_start)
       = [(payload_1, False), (payload_2, True)]"
  by (simp add: scanner_run_def scanner_step_def scanner_start_def scanner_initial_def
      handleBarCodeScanned_def handleManualEntry_def processScan_def Let_def
      sample_parse_1 sample_parse_2 not_blank_1 payload_1_def payload_2_def
      read_prop_def truthy_opt_def)

text \<open>
  C6: when an outstanding verify call comes back rejected or fails, the state is as it
  was but for \<^verbatim>\<open>isProcessing\<close>, now cleared: the OTP modal, the retained payload and the
  shown result with its guest fields are unchanged, and no call is made. If the modal was
  shown with a payload retained, the guard can enter a new code and press verify, and the
  service is called with the retained pair and the new code. And a step that closes the
  OTP modal is the cancel button or a verify call that was accepted.
\<close>

theorem failed_otp_stays_pending:
  assumes "i < length (sc_verifying w)" and "\<not> verify_accepted result"
  shows "sc_ui (scanner_step env w (OtpVerifySettles i result)) = (sc_ui w)\<lparr>isProcessing := False\<rparr>
       \<and> showOtpModal (sc_ui (scanner_step env w (OtpVerifySettles i result))) = showOtpModal (sc_ui w)
       \<and> pendingOtpData (sc_ui (scanner_step env w (OtpVerifySettles i result)))
           = pendingOtpData (sc_ui w)
       \<and> scanResult (sc_ui (scanner_step env w (OtpVerifySettles i result))) = scanResult (sc_ui w)
       \<and> sc_calls (scanner_step env w (OtpVerifySettles i result)) = sc_calls w
       \<and> (showOtpModal (sc_ui w) \<and> pendingOtpData (sc_ui w) = Some p \<and> truthy p
            \<and> length c \<le> 6 \<and> \<not> blank c \<longrightarrow>
          sc_calls (scanner_run env [OtpVerifySettles i result, ChangeOtpCode c, PressOtpVerify] w)
            = sc_calls w @
                [Op_verifyOtp (read_prop p ''invitationId'') (read_prop p ''qrCode'')
                   (Some (JStr c))])
       \<and> (\<forall>w0 e. showOtpModal (sc_ui w0) \<and> \<not> showOtpModal (sc_ui (scanner_step env w0 e)) \<longrightarrow>
            e = PressOtpCancel
          \<or> (\<exists>k r. e = OtpVerifySettles k r \<and> verify_accepted r))"
proof -
  have st: "scanner_step env w (OtpVerifySettles i result) = handleVerifyOtp_settles i result w"
    using assms(1) by (simp add: scanner_step_def)
  note rej = verify_settles_rejected [OF assms]
  have a: "sc_ui (scanner_step env w (OtpVerifySettles i result)) = (sc_ui w)\<lparr>isProcessing := False\<rparr>"
    using rej by (simp add: st)
  have b: "sc_calls (scanner_step env w (OtpVerifySettles i result)) = sc_calls w"
    using rej by (simp add: st)
  have c: "\<forall>w0 e. showOtpModal (sc_ui w0) \<and> \<not> showOtpModal (sc_ui (scanner_step env w0 e)) \<longrightarrow>
            e = PressOtpCancel
          \<or> (\<exists>k r. e = OtpVerifySettles k r \<and> verify_accepted r)"
    using otp_modal_closed_by by blast
  show ?thesis
    apply (intro conjI impI)
          apply (rule a)
         apply (simp add: a)
        apply (simp add: a)
       apply (simp add: a)
      apply (rule b)
     apply (rule retry_after_rejection [OF assms]; simp)
    apply (rule c)
    done
qed

theorem failed_otp_stays_pending_witness:
  "0 < length (sc_verifying awaiting_verify) \<and> \<not> verify_accepted otp_rejected
   \<and> showOtpModal (sc_ui (scanner_step sample_env awaiting_verify (OtpVerifySettles 0 otp_rejected)))
   \<and> pendingOtpData (sc_ui (scanner_step sample_env awaiting_verify (OtpVerifySettles 0 otp_rejected)))
       = Some payload_1
   \<and> map_option sr_success
        (scanResult (sc_ui (scanner_step sample_env awaiting_verify (OtpVerifySettles 0 otp_rejected))))
       = Some True
   \<and> sc_calls (scanner_run sample_env
        [OtpVerifySettles 0 otp_rejected, ChangeOtpCode ''482913'', PressOtpVerify] awaiting_verify)
       = [Op_scanGuest (Some (JStr ''inv1'')) (Some (JStr ''q1'')),
          Op_verifyOtp (Some (JStr ''inv1'')) (Some (JStr ''q1'')) (Some (JStr ''000000'')),
          Op_verifyOtp (Some (JStr ''inv1'')) (Some (JStr ''q1'')) (Some (JStr ''482913''))]"
proof -
  have h1: "0 < length (sc_verifying awaiting_verify)" by (simp add: awaiting_verify_eq)
  have h2: "\<not> verify_accepted otp_rejected" by (simp add: verify_accepted_def otp_rejected_def)
  have p1: "read_prop payload_1 ''invitationId'' = Some (JStr ''inv1'')"
    and p2: "read_prop payload_1 ''qrCode'' = Some (JStr ''q1'')"
    by (simp_all add: payload_1_def read_prop_def)
  have t: "truthy payload_1" by (simp add: payload_1_def)
  have b: "\<not> blank ''482913''" by (simp add: blank_def js_whitespace_def)
  from failed_otp_stays_pending [OF h1 h2, of sample_env payload_1 "''482913''"] h1 h2 t b
  show ?thesis
    by (simp add: awaiting_verify_eq p1 p2)
qed

text \<open>
  C7 (the code departs from the claim): after a scan answered in the requires-OTP shape
  the guard enters the one-character code 1 and presses verify: the scanner calls
  \<^verbatim>\<open>verifyOtp\<close> with that code. Its handler and its button test that the code is not
  blank, not that it has 6 characters.
\<close>

theorem short_otp_code_is_submitted:
  "sc_calls (scanner_run sample_env
      [BarcodeScanned text_1, ScanGuestSettles 0 otp_required, ChangeOtpCode ''1'', PressOtpVerify]
      scanner_start)
     = [Op_scanGuest (Some (JStr ''inv1'')) (Some (JStr ''q1'')),
        Op_verifyOtp (Some (JStr ''inv1'')) (Some (JStr ''q1'')) (Some (JStr ''1''))]
   \<and> length ''1'' \<noteq> (6::nat)"
  by (simp add: scanner_run_def scanner_step_def scanner_start_def scanner_initial_def
      handleBarCodeScanned_def processScan_def processScan_settles_def scan_response_def
      scan_finished_def handleVerifyOtp_def Let_def remove_nth_def otp_required_def
      sample_parse_1 payload_1_def read_prop_def truthy_opt_def blank_def js_whitespace_def)

text \<open>
  The verification when nothing comes between its steps: a well-formed text enters by
  either path, the scan call comes back in the requires-OTP shape with data \<open>d1\<close>, the
  guard enters a code and presses verify, and the verify call is accepted with data
  \<open>d2\<close>: the result shown is a success whose guest name, guest phone and security level
  are those of \<open>d1\<close>, the scan response (of \<open>d2\<close> only the message is read); the OTP modal
  is closed and the retained payload and code are cleared.
\<close>

lemma direct_verification_reuses_guest:
  assumes "scan_entry w t e" and "JSON_parse env t = Some j"
      and "truthy_opt (read_prop j ''invitationId'')" and "truthy_opt (read_prop j ''qrCode'')"
      and "requires_otp scan" and "outcome_data scan = Some d1"
      and "length c \<le> 6" and "\<not> blank c"
      and "verify_accepted verify" and "outcome_data verify = Some d2"
  shows "let w5 = scanner_run env
                    [e, ScanGuestSettles (length (sc_scanning w)) scan, ChangeOtpCode c,
                     PressOtpVerify, OtpVerifySettles (length (sc_verifying w)) verify] w
         in scanResult (sc_ui w5) = Some
              \<lparr>sr_success = True,
               sr_message = or_else (Some (sd_message d2)) ''Access Granted'',
               sr_guestName = inv_guestName (sd_invitation d1),
               sr_guestPhone = Some (inv_guestPhone (sd_invitation d1)),
               sr_securityLevel = Some (inv_securityLevel (sd_invitation d1)),
               sr_requiresOtp = Some False,
               sr_invitationId = None, sr_qrCode = None\<rparr>
          \<and> scanned (sc_ui w5) \<and> \<not> showOtpModal (sc_ui w5) \<and> \<not> isProcessing (sc_ui w5)
          \<and> pendingOtpData (sc_ui w5) = None \<and> otpCode (sc_ui w5) = []"
proof -
  define w1 where "w1 = scanner_step env w e"
  define w2 where "w2 = scanner_step env w1 (ScanGuestSettles (length (sc_scanning w)) scan)"
  define w3 where "w3 = scanner_step env w2 (ChangeOtpCode c)"
  define w4 where "w4 = scanner_step env w3 PressOtpVerify"
  define w5 where "w5 = scanner_step env w4 (OtpVerifySettles (length (sc_verifying w)) verify)"
  from entry_accepts [OF assms(1-4)] obtain manual where
    q1: "sc_scanning w1 = sc_scanning w @ [(j, manual)]"
    and v1: "sc_verifying w1 = sc_verifying w" and sc1: "scanned (sc_ui w1)"
    unfolding w1_def by blast
  note s2 = scan_settles_pending_otp [OF q1 assms(5,6), of env, folded w2_def]
  have w3_eq: "w3 = w2\<lparr>sc_ui := (sc_ui w2)\<lparr>otpCode := c\<rparr>\<rparr>"
    unfolding w3_def using s2 assms(7) by (intro change_otp_code) simp_all
  have tj: "truthy j" by (rule truthy_of_read_prop [OF assms(3)])
  have w4_eq: "w4 = w3\<lparr>sc_ui := (sc_ui w3)\<lparr>isProcessing := True\<rparr>,
           sc_calls := sc_calls w3 @
             [Op_verifyOtp (read_prop j ''invitationId'') (read_prop j ''qrCode'')
                (Some (JStr (otpCode (sc_ui w3))))],
           sc_verifying := sc_verifying w3 @ [scanResult (sc_ui w3)]\<rparr>"
    unfolding w4_def using s2 tj assms(8) by (intro press_verify_sends) (simp_all add: w3_eq)
  have v4: "sc_verifying w4 = sc_verifying w @ [scanResult (sc_ui w2)]"
    using s2 by (simp add: w4_eq w3_eq v1)
  note s5 = verify_settles_granted [OF v4 assms(9,10), of env, folded w5_def]
  have run: "scanner_run env
               [e, ScanGuestSettles (length (sc_scanning w)) scan, ChangeOtpCode c,
                PressOtpVerify, OtpVerifySettles (length (sc_verifying w)) verify] w = w5"
    by (simp add: scanner_run_def w1_def w2_def w3_def w4_def w5_def)
  show ?thesis
    unfolding Let_def run
    using s2 sc1 by (simp add: s5 w4_eq w3_eq verify_granted_def)
qed

lemma direct_verification_reuses_guest_example:
  "scan_entry scanner_start text_1 (BarcodeScanned text_1)
   \<and> JSON_parse sample_env text_1 = Some payload_1
   \<and> truthy_opt (read_prop payload_1 ''invitationId'')
   \<and> truthy_opt (read_prop payload_1 ''qrCode'')
   \<and> requires_otp otp_required
   \<and> map_option (inv_guestName \<circ> sd_invitation) (outcome_data otp_required) = Some (Some ''Alice'')
   \<and> length ''482913'' \<le> (6::nat) \<and> \<not> blank ''482913''
   \<and> verify_accepted otp_accepted
   \<and> map_option (inv_guestName \<circ> sd_invitation) (outcome_data otp_accepted) = Some None
   \<and> scanResult (sc_ui (scanner_run sample_env
        [BarcodeScanned text_1, ScanGuestSettles 0 otp_required, ChangeOtpCode ''482913'',
         PressOtpVerify, OtpVerifySettles 0 otp_accepted] scanner_start))
       = Some \<lparr>sr_success = True, sr_message = ''Access Granted'',
               sr_guestName = Some ''Alice'', sr_guestPhone = Some ''555-0100'',
               sr_securityLevel = Some 2, sr_requiresOtp = Some False,
               sr_invitationId = None, sr_qrCode = None\<rparr>"
proof -
  have h1: "scan_entry scanner_start text_1 (BarcodeScanned text_1)"
    by (simp add: scan_entry_def scanner_start_def scanner_initial_def)
  have h3: "truthy_opt (read_prop payload_1 ''invitationId'')"
    and h4: "truthy_opt (read_prop payload_1 ''qrCode'')"
    by (simp_all add: payload_1_def read_prop_def truthy_opt_def)
  have h5: "requires_otp otp_required"
    by (simp add: requires_otp_def otp_required_def)
  have h6: "outcome_data otp_required =
              Some \<lparr>sd_status = ''pending_otp'', sd_message = ''OTP sent'', sd_invitation = alice\<rparr>"
    by (simp add: outcome_data_def otp_required_def)
  have h7: "length ''482913'' \<le> (6::nat)" by simp
  have h8: "\<not> blank ''482913''" by (simp add: blank_def js_whitespace_def)
  have h9: "verify_accepted otp_accepted"
    by (simp add: verify_accepted_def otp_accepted_def)
  have h10: "outcome_data otp_accepted =
               Some \<lparr>sd_status = ''success'', sd_message = ''Access Granted'',
                     sd_invitation = alice\<lparr>inv_guestName := None, inv_guestPhone := []\<rparr>\<rparr>"
    by (simp add: outcome_data_def otp_accepted_def)
  have z: "sc_scanning scanner_start = []" "sc_verifying scanner_start = []"
    by (simp_all add: scanner_start_def)
  from direct_verification_reuses_guest [OF h1 sample_parse_1 h3 h4 h5 h6 h7 h8 h9 h10]
  have "scanResult (sc_ui (scanner_run sample_env
        [BarcodeScanned text_1, ScanGuestSettles 0 otp_required, ChangeOtpCode ''482913'',
         PressOtpVerify, OtpVerifySettles 0 otp_accepted] scanner_start))
       = Some \<lparr>sr_success = True, sr_message = ''Access Granted'',
               sr_guestName = Some ''Alice'', sr_guestPhone = Some ''555-0100'',
               sr_securityLevel = Some 2, sr_requiresOtp = Some False,
               sr_invitationId = None, sr_qrCode = None\<rparr>"
    by (simp add: Let_def z alice_def or_else_def)
  moreover have "map_option (inv_guestName \<circ> sd_invitation) (outcome_data otp_required)
                   = Some (Some ''Alice'')"
    by (simp add: h6 alice_def)
  moreover have "map_option (inv_guestName \<circ> sd_invitation) (outcome_data otp_accepted) = Some None"
    by (simp add: h10)
  ultimately show ?thesis
    using h1 sample_parse_1 h3 h4 h5 h7 h8 h9 by (intro conjI)
qed

text \<open>
  C8 (the code departs from the claim): with the two scans of the course of events of C2
  in flight, the first is answered in the requires-OTP shape with the guest Alice, whose
  fields the shown result holds. The second scan is then rejected: its catch replaces the
  shown result by a failure without guest fields, while the OTP modal stays. The guard's
  verify request, with the pair inv1 and q1, is accepted, and the granted result has no
  guest name, phone or security level.
\<close>

theorem later_scan_failure_drops_cached_guest:
  "map_option sr_guestName (scanResult (sc_ui (scanner_run sample_env
        [ScanGuestSettles 0 otp_required] two_scans_in_flight))) = Some (Some ''Alice'')
   \<and> sc_calls (scanner_run sample_env
        [ScanGuestSettles 0 otp_required, ScanGuestSettles 0 scan_rejected,
         ChangeOtpCode ''482913'', PressOtpVerify] two_scans_in_flight)
       = [Op_scanGuest (Some (JStr ''inv1'')) (Some (JStr ''q1'')),
          Op_scanGuest (Some (JStr ''inv2'')) (Some (JStr ''q2'')),
          Op_verifyOtp (Some (JStr ''inv1'')) (Some (JStr ''q1'')) (Some (JStr ''482913''))]
   \<and> scanResult (sc_ui (scanner_run sample_env
        [ScanGuestSettles 0 otp_required, ScanGuestSettles 0 scan_rejected,
         ChangeOtpCode ''482913'', PressOtpVerify, OtpVerifySettles 0 otp_accepted]
        two_scans_in_flight))
       = Some \<lparr>sr_success = True, sr_message = ''Access Granted'',
               sr_guestName = None, sr_guestPhone = None, sr_securityLevel = None,
               sr_requiresOtp = Some False, sr_invitationId = None, sr_qrCode = None\<rparr>
   \<and> \<not> showOtpModal (sc_ui (scanner_run sample_env
        [ScanGuestSettles 0 otp_required, ScanGuestSettles 0 scan_rejected,
         ChangeOtpCode ''482913'', PressOtpVerify, OtpVerifySettles 0 otp_accepted]
        two_scans_in_flight))"
  by (simp add: two_scans_in_flight_eq scanner_run_def scanner_step_def
      processScan_settles_def scan_response_def scan_finished_def scan_failed_def
      handleVerifyOtp_def handleVerifyOtp_settles_def verify_granted_def Let_def
      remove_nth_def otp_required_def scan_rejected_def otp_accepted_def alice_def
      payload_1_def payload_2_def or_else_def
      read_prop_def truthy_opt_def blank_def js_whitespace_def)

end
